theory Spec2Isabelle
  imports Complex_Main "HOL-Library.AList"
begin

section \<open>Python values, exceptions\<close>

text \<open>
  The module \<^verbatim>\<open>pyrevit/revit/db/query.py\<close> is a set of query helpers over the document
  object model of a host application. Every helper is embedded as a function of the
  host state it reads; a raise is a value \<open>Inl e\<close>, a return a value \<open>Inr v\<close>.
\<close>

datatype error =
    PyRevitException string
  | AttributeError string
  | TypeError string
  | UnboundLocalError string
  | HostException string

text \<open>
  Values of the dynamically typed language, as far as the helpers inspect them.
  \<open>'o\<close> is the type of the host objects a function handles. A double is only ever
  compared in this module, never computed with, so a finite double stands as the rational
  number it denotes.
\<close>

datatype 'o pyval =
    PyNone
  | PyBool bool
  | PyInt int
  | PyFloat rat
  | PyStr string
  | PyElementId int
  | PyObj 'o

fun num_of :: "'o pyval \<Rightarrow> rat option" where
  "num_of (PyBool b) = Some (if b then 1 else 0)"
| "num_of (PyInt i) = Some (of_int i)"
| "num_of (PyFloat r) = Some r"
| "num_of _ = None"

definition py_eq :: "'o pyval \<Rightarrow> 'o pyval \<Rightarrow> bool" where
  \<comment> \<open>\<^verbatim>\<open>a == b\<close>: numbers compare by value across bool, int and float, everything
      else within its own type.\<close>
  "py_eq a b =
     (case (num_of a, num_of b) of
        (Some x, Some y) \<Rightarrow> x = y
      | (None, None) \<Rightarrow> a = b
      | _ \<Rightarrow> False)"

fun str_contains :: "string \<Rightarrow> string \<Rightarrow> bool" where
  \<comment> \<open>\<^verbatim>\<open>q in s\<close> on two strings: \<open>q\<close> starts at some position of \<open>s\<close>.\<close>
  "str_contains q [] = (q = [])"
| "str_contains q (c # s) = (take (length q) (c # s) = q \<or> str_contains q s)"

fun py_in_str :: "'o pyval \<Rightarrow> string \<Rightarrow> error + bool" where
  \<comment> \<open>\<^verbatim>\<open>x in s\<close> with \<open>s\<close> a string: the left operand must be a string too.\<close>
  "py_in_str (PyStr q) s = Inr (str_contains q s)"
| "py_in_str _ s = Inl (TypeError ''in <string> requires string as left operand'')"

section \<open>The host object model\<close>

datatype StorageType = ST_None | ST_Integer | ST_Double | ST_String | ST_ElementId

record Parameter =
  StorageType :: StorageType
  AsDouble :: rat
  AsInteger :: int
  AsString :: "string option"
  AsElementId :: int

datatype Category =
  Cat (cat_Name: string) (cat_Id: int) (SubCategories: "Category list")

datatype ElementClass =
    C_View | C_ViewDrafting | C_ViewPlan | C_ViewSection
  | C_Room | C_Area | C_Space

datatype BuiltInParameter =
    VIEW_DESCRIPTION | REFERENCE_VIEWER_TARGET_VIEW | SHEET_SCHEDULED

text \<open>
  An element of the document. \<open>classes\<close> lists the host classes (below \<^verbatim>\<open>DB.Element\<close>)
  the object is an instance of; \<open>Parameters\<close> is what \<^verbatim>\<open>LookupParameter\<close> searches and
  \<open>BuiltInParameters\<close> what \<^verbatim>\<open>element.Parameter[bip]\<close> indexes.
\<close>

record Element =
  Id :: int
  IsElementType :: bool
  classes :: "ElementClass list"
  Category :: "Category option"
  Name :: string
  ViewName :: string
  Parameters :: "(string \<times> Parameter) list"
  BuiltInParameters :: "(BuiltInParameter \<times> Parameter) list"
  Area :: rat

record ViewSheet =
  sheet_Id :: int
  SheetNumber :: string
  IsPlaceholder :: bool
  sheet_Parameter :: "(BuiltInParameter \<times> Parameter) list"
  AllViewports :: "int list"

record Viewport =
  vp_Id :: int
  ViewId :: int

record ScheduleSheetInstance =
  OwnerViewId :: int
  ScheduleId :: int

record ViewSchedule =
  sched_Id :: int
  IsTitleblockRevisionSchedule :: bool

record Workset =
  ws_Id :: int
  ws_Name :: string

record Definition =
  def_Name :: string
  def_Id :: int

record ExternalDefinition =
  ext_Name :: string
  ext_GUID :: string

record DefinitionGroup =
  Definitions :: "ExternalDefinition list"

record DefinitionFile =
  Groups :: "DefinitionGroup list"

record FamilyType =
  ft_Name :: string

record FamilyParameter =
  fp_Definition_Name :: string

record 'c Grid =
  grid_Id :: int
  Curve :: 'c

record 'c LinkDocument =
  link_PathName :: string
  link_Grids :: "'c Grid list"

text \<open>
  A document. Each list is the result of one host query:
  \<open>Elements\<close> every element (types included), \<open>ElementsInView v\<close> the elements the
  collector scoped to view \<open>v\<close> yields, \<open>Sheets\<close> the non-type elements of category
  \<^verbatim>\<open>OST_Sheets\<close>, \<open>Viewports\<close>, \<open>ScheduleSheetInstances\<close> and \<open>ViewSchedules\<close> the
  elements of these classes, \<open>Worksets\<close> the workset collector, \<open>ParameterBindings\<close>
  the binding map in iteration order (the binding itself is opaque, a number),
  \<open>Categories\<close> \<^verbatim>\<open>doc.Settings.Categories\<close>, \<open>FamilyTypes\<close> and \<open>FamilyParameters\<close>
  the family manager's lists, \<open>Grids\<close> the non-type elements of category
  \<^verbatim>\<open>OST_Grids\<close>, and \<open>LinkInstanceDocuments\<close>, per link instance, what
  \<^verbatim>\<open>GetLinkDocument()\<close> gives (\<open>None\<close> when the link is not loaded; of a link document
  only its grids are read).
\<close>

record 'c Document =
  PathName :: string
  IsFamilyDocument :: bool
  Elements :: "Element list"
  ElementsInView :: "int \<Rightarrow> Element list"
  Sheets :: "ViewSheet list"
  Viewports :: "Viewport list"
  ScheduleSheetInstances :: "ScheduleSheetInstance list"
  ViewSchedules :: "ViewSchedule list"
  Worksets :: "Workset list"
  ParameterBindings :: "(Definition \<times> nat) list"
  Categories :: "Category list"
  FamilyTypes :: "FamilyType list"
  FamilyParameters :: "FamilyParameter list"
  Grids :: "'c Grid list"
  LinkInstanceDocuments :: "'c LinkDocument option list"

text \<open>
  \<^verbatim>\<open>HOST_APP\<close> and the host's enumerations: the active document (absent when none is
  open), the shared-parameter file name and what opening it yields, the version test
  \<^verbatim>\<open>is_newer_than('2019', or_equal=True)\<close>, the members of \<^verbatim>\<open>BuiltInCategory\<close> (each
  by its integer) and the three of them in \<^verbatim>\<open>BUILTINCATEGORIES_VIEW\<close>.
\<close>

record 'c Host =
  doc :: "'c Document option"
  SharedParametersFilename :: "string option"
  OpenSharedParameterFile :: "DefinitionFile option"
  is_newer_than_2019 :: bool
  BuiltInCategory_values :: "int list"
  BUILTINCATEGORIES_VIEW :: "int list"

definition doc_or_host :: "'c Host \<Rightarrow> 'c Document option \<Rightarrow> 'c Document option" where
  \<comment> \<open>\<^verbatim>\<open>doc or HOST_APP.doc\<close>\<close>
  "doc_or_host host d = (case d of Some x \<Rightarrow> Some x | None \<Rightarrow> doc host)"

definition collector :: "'c Document option \<Rightarrow> error + 'c Document" where
  \<comment> \<open>\<^verbatim>\<open>DB.FilteredElementCollector(doc)\<close>: the host rejects a null document.\<close>
  "collector d =
     (case d of
        None \<Rightarrow> Inl (HostException ''ArgumentNullException: document'')
      | Some x \<Rightarrow> Inr x)"

definition LookupParameter :: "Element \<Rightarrow> 'n pyval \<Rightarrow> error + Parameter option" where
  \<comment> \<open>\<^verbatim>\<open>element.LookupParameter(name)\<close>: the first parameter of that name, null when
      there is none; the host method takes a string and nothing else.\<close>
  "LookupParameter e n =
     (case n of
        PyStr s \<Rightarrow> Inr (map_of (Parameters e) s)
      | PyNone \<Rightarrow> Inl (HostException ''ArgumentNullException: parameterName'')
      | _ \<Rightarrow> Inl (TypeError ''expected str''))"

section \<open>Parameter queries\<close>

definition get_param :: "Element pyval \<Rightarrow> 'n pyval \<Rightarrow> Parameter pyval \<Rightarrow> Parameter pyval" where
  \<comment> \<open>The first argument is an element (\<open>PyObj e\<close>) or a value that is none; a call that
      runs off the end of the function returns \<^verbatim>\<open>None\<close>.\<close>
  "get_param element param_name default_value =
     (case element of
        PyObj e \<Rightarrow>
          (case LookupParameter e param_name of
             Inr (Some p) \<Rightarrow> PyObj p
           | Inr None \<Rightarrow> PyNone
           | Inl err \<Rightarrow> default_value)
      | _ \<Rightarrow> PyNone)"

definition get_all_elements :: "'c Host \<Rightarrow> 'c Document option \<Rightarrow> error + Element list" where
  "get_all_elements host d =
     (case collector (doc_or_host host d) of
        Inl err \<Rightarrow> Inl err
      | Inr x \<Rightarrow> Inr (Elements x))"

definition get_param_value :: "Parameter \<Rightarrow> error + 'o pyval" where
  "get_param_value targetparam =
     (if StorageType targetparam = ST_Double then Inr (PyFloat (AsDouble targetparam))
      else if StorageType targetparam = ST_Integer then Inr (PyInt (AsInteger targetparam))
      else if StorageType targetparam = ST_String then
        Inr (case AsString targetparam of None \<Rightarrow> PyNone | Some s \<Rightarrow> PyStr s)
      else if StorageType targetparam = ST_ElementId then
        Inr (PyElementId (AsElementId targetparam))
      else Inl (UnboundLocalError ''local variable value referenced before assignment''))"

definition param_matches :: "'o pyval \<Rightarrow> bool \<Rightarrow> 'o pyval \<Rightarrow> error + bool" where
  \<comment> \<open>The test of the loop body of \<^verbatim>\<open>get_elements_by_parameter\<close>: the \<^verbatim>\<open>if\<close> with its
      short-circuit conjunction, then the \<^verbatim>\<open>elif\<close>.\<close>
  "param_matches param_value partial v =
     (case v of
        PyStr s \<Rightarrow>
          (if partial then
             (case py_in_str param_value s of
                Inl err \<Rightarrow> Inl err
              | Inr True \<Rightarrow> Inr True
              | Inr False \<Rightarrow> Inr (py_eq param_value v))
           else Inr (py_eq param_value v))
      | _ \<Rightarrow> Inr (py_eq param_value v))"

fun found_els_loop ::
  "'n pyval \<Rightarrow> 'o pyval \<Rightarrow> bool \<Rightarrow> Element list \<Rightarrow> Element list \<Rightarrow> error + Element list" where
  "found_els_loop param_name param_value partial [] found_els = Inr found_els"
| "found_els_loop param_name param_value partial (element # rest) found_els =
     (case LookupParameter element param_name of
        Inl err \<Rightarrow> Inl err
      | Inr None \<Rightarrow> found_els_loop param_name param_value partial rest found_els
      | Inr (Some targetparam) \<Rightarrow>
          (case get_param_value targetparam of
             Inl err \<Rightarrow> Inl err
           | Inr v \<Rightarrow>
               (case param_matches param_value partial v of
                  Inl err \<Rightarrow> Inl err
                | Inr True \<Rightarrow>
                    found_els_loop param_name param_value partial rest (found_els @ [element])
                | Inr False \<Rightarrow>
                    found_els_loop param_name param_value partial rest found_els)))"

definition get_elements_by_parameter ::
  "'c Host \<Rightarrow> 'n pyval \<Rightarrow> 'o pyval \<Rightarrow> 'c Document option \<Rightarrow> bool \<Rightarrow> error + Element list" where
  "get_elements_by_parameter host param_name param_value d partial =
     (case get_all_elements host d of
        Inl err \<Rightarrow> Inl err
      | Inr els \<Rightarrow> found_els_loop param_name param_value partial els [])"

definition of_opt :: "'o option \<Rightarrow> 'o pyval" where
  \<comment> \<open>An object reference that may be null, as a value of the language.\<close>
  "of_opt r = (case r of None \<Rightarrow> PyNone | Some x \<Rightarrow> PyObj x)"


definition GetElement :: "'c Document \<Rightarrow> int \<Rightarrow> Element option" where
  \<comment> \<open>\<^verbatim>\<open>doc.GetElement(id)\<close>, null when the document has no such element.\<close>
  "GetElement x i = find (\<lambda>e. Id e = i) (Elements x)"


definition GetElement_ViewSchedule :: "'c Document \<Rightarrow> int \<Rightarrow> ViewSchedule option" where
  \<comment> \<open>\<^verbatim>\<open>doc.GetElement(id)\<close> where the caller reads a schedule view.\<close>
  "GetElement_ViewSchedule x i = find (\<lambda>s. sched_Id s = i) (ViewSchedules x)"

section \<open>Names\<close>


section \<open>Worksets\<close>




section \<open>Shared and project parameters\<close>

definition get_sharedparam_definition_file :: "'c Host \<Rightarrow> error + DefinitionFile" where
  "get_sharedparam_definition_file host =
     (if SharedParametersFilename host \<noteq> None \<and> SharedParametersFilename host \<noteq> Some [] then
        (case OpenSharedParameterFile host of
           Some sparamf \<Rightarrow> Inr sparamf
         | None \<Rightarrow> Inl (PyRevitException ''Failed opening Shared Parameters file.''))
      else Inl (PyRevitException ''No Shared Parameters file defined.''))"

definition get_defined_sharedparams :: "'c Host \<Rightarrow> error + ExternalDefinition list" where
  \<comment> \<open>Only the module's own exception is caught (and logged).\<close>
  "get_defined_sharedparams host =
     (case get_sharedparam_definition_file host of
        Inr f \<Rightarrow> Inr (concat (map Definitions (Groups f)))
      | Inl (PyRevitException ex) \<Rightarrow> Inr []
      | Inl err \<Rightarrow> Inl err)"

text \<open>
  The wrapper class \<^verbatim>\<open>db.ProjectParameter\<close> lives in another module of the package;
  its constructor, the attributes \<^verbatim>\<open>name\<close> and \<^verbatim>\<open>param_id\<close> and its \<^verbatim>\<open>__eq__\<close> are
  parameters here, \<open>'pp\<close> the type of its instances.
\<close>

record 'pp ProjectParameter_class =
  ProjectParameter :: "Definition \<Rightarrow> nat \<Rightarrow> ExternalDefinition option \<Rightarrow> 'pp"
  pp_name :: "'pp \<Rightarrow> string"
  pp_param_id :: "'pp \<Rightarrow> int"
  pp_eq :: "'pp \<Rightarrow> 'pp pyval \<Rightarrow> bool"

definition get_project_parameters ::
  "'c Host \<Rightarrow> 'pp ProjectParameter_class \<Rightarrow> 'c Document option \<Rightarrow> error + 'pp list" where
  "get_project_parameters host db d =
     (case get_defined_sharedparams host of
        Inl err \<Rightarrow> Inl err
      | Inr defs \<Rightarrow>
          (let shared_params = map_of (rev (map (\<lambda>x. (ext_Name x, x)) defs)) in
           case doc_or_host host d of
             None \<Rightarrow> Inr []
           | Some x \<Rightarrow>
               (if \<not> IsFamilyDocument x then
                  Inr (map (\<lambda>(k, binding).
                              ProjectParameter db k binding (shared_params (def_Name k)))
                         (ParameterBindings x))
                else Inr [])))"

definition get_project_parameter_id ::
  "'c Host \<Rightarrow> 'pp ProjectParameter_class \<Rightarrow> string \<Rightarrow> error + int" where
  "get_project_parameter_id host db param_name =
     (case get_project_parameters host db None of
        Inl err \<Rightarrow> Inl err
      | Inr pps \<Rightarrow>
          (case find (\<lambda>project_param. pp_name db project_param = param_name) pps of
             Some project_param \<Rightarrow> Inr (pp_param_id db project_param)
           | None \<Rightarrow> Inl (PyRevitException (''Parameter not found: '' @ param_name))))"



section \<open>Sheets\<close>

fun sheets_appearing :: "ViewSheet list \<Rightarrow> error + ViewSheet list" where
  \<comment> \<open>The comprehension over \<^verbatim>\<open>x.Parameter[SHEET_SCHEDULED].AsInteger() > 0\<close>.\<close>
  "sheets_appearing [] = Inr []"
| "sheets_appearing (x # xs) =
     (case map_of (sheet_Parameter x) SHEET_SCHEDULED of
        None \<Rightarrow> Inl (AttributeError ''NoneType object has no attribute AsInteger'')
      | Some p \<Rightarrow>
          (case sheets_appearing xs of
             Inl err \<Rightarrow> Inl err
           | Inr r \<Rightarrow> Inr (if AsInteger p > 0 then x # r else r)))"

definition get_sheets ::
  "'c Host \<Rightarrow> bool \<Rightarrow> bool \<Rightarrow> 'c Document option \<Rightarrow> error + ViewSheet list" where
  "get_sheets host include_placeholders include_noappear d =
     (case collector (doc_or_host host d) of
        Inl err \<Rightarrow> Inl err
      | Inr x \<Rightarrow>
          (case (if \<not> include_noappear then sheets_appearing (Sheets x) else Inr (Sheets x)) of
             Inl err \<Rightarrow> Inl err
           | Inr sheets \<Rightarrow>
               (if \<not> include_placeholders then Inr (filter (\<lambda>x. \<not> IsPlaceholder x) sheets)
                else Inr sheets)))"

definition get_sheet_by_number ::
  "'c Host \<Rightarrow> string \<Rightarrow> 'c Document option \<Rightarrow> error + ViewSheet option" where
  "get_sheet_by_number host sheet_num d =
     (case get_sheets host True True (doc_or_host host d) of
        Inl err \<Rightarrow> Inl err
      | Inr sheets \<Rightarrow> Inr (find (\<lambda>x. SheetNumber x = sheet_num) sheets))"





fun schedules_of_sheet ::
  "'c Document \<Rightarrow> ViewSheet \<Rightarrow> ScheduleSheetInstance list \<Rightarrow> error + ScheduleSheetInstance list" where
  \<comment> \<open>The comprehension of \<^verbatim>\<open>get_schedules_on_sheet\<close>; its \<^verbatim>\<open>and\<close> looks the schedule up
      only for an instance owned by the sheet.\<close>
  "schedules_of_sheet x viewsheet [] = Inr []"
| "schedules_of_sheet x viewsheet (s # rest) =
     (if OwnerViewId s = sheet_Id viewsheet then
        (case GetElement_ViewSchedule x (ScheduleId s) of
           None \<Rightarrow>
             Inl (AttributeError ''NoneType object has no attribute IsTitleblockRevisionSchedule'')
         | Some sched \<Rightarrow>
             (case schedules_of_sheet x viewsheet rest of
                Inl err \<Rightarrow> Inl err
              | Inr r \<Rightarrow> Inr (if \<not> IsTitleblockRevisionSchedule sched then s # r else r)))
      else schedules_of_sheet x viewsheet rest)"

definition get_schedules_on_sheet ::
  "'c Host \<Rightarrow> ViewSheet \<Rightarrow> 'c Document option \<Rightarrow> error + ScheduleSheetInstance list" where
  "get_schedules_on_sheet host viewsheet d =
     (case collector (doc_or_host host d) of
        Inl err \<Rightarrow> Inl err
      | Inr x \<Rightarrow> schedules_of_sheet x viewsheet (ScheduleSheetInstances x))"

definition is_sheet_empty :: "'c Host \<Rightarrow> 'c Document \<Rightarrow> ViewSheet \<Rightarrow> error + 'o pyval" where
  \<comment> \<open>\<open>vdoc\<close> is \<^verbatim>\<open>viewsheet.Document\<close>.\<close>
  "is_sheet_empty host vdoc viewsheet =
     (let sheet_views = AllViewports viewsheet in
      case get_schedules_on_sheet host viewsheet (Some vdoc) of
        Inl err \<Rightarrow> Inl err
      | Inr sheet_scheds \<Rightarrow>
          (if sheet_views \<noteq> [] \<or> sheet_scheds \<noteq> [] then Inr (PyBool False)
           else Inr (PyBool True)))"

section \<open>Categories\<close>

text \<open>
  What the category helpers are given: a name, a member of \<^verbatim>\<open>BuiltInCategory\<close> (by its
  integer), an \<^verbatim>\<open>ElementId\<close>, a \<^verbatim>\<open>Category\<close> object, or anything else.
\<close>

datatype cat_query =
    QStr string
  | QBuiltInCategory int
  | QElementId int
  | QCategory Category
  | QOther

definition get_doc_categories :: "'c Host \<Rightarrow> 'c Document option \<Rightarrow> error + Category list" where
  "get_doc_categories host d =
     (case doc_or_host host d of
        None \<Rightarrow> Inl (AttributeError ''NoneType object has no attribute Settings'')
      | Some x \<Rightarrow> Inr (Categories x @ concat (map SubCategories (Categories x))))"

definition get_category ::
  "'c Host \<Rightarrow> cat_query \<Rightarrow> 'c Document option \<Rightarrow> error + Category option" where
  \<comment> \<open>The categories are always those of the active document: \<^verbatim>\<open>get_doc_categories()\<close>
      is called without the document.\<close>
  "get_category host cat_name_or_builtin d =
     (case get_doc_categories host None of
        Inl err \<Rightarrow> Inl err
      | Inr all_cats \<Rightarrow>
          Inr (case cat_name_or_builtin of
                 QStr s \<Rightarrow> find (\<lambda>cat. cat_Name cat = s) all_cats
               | QBuiltInCategory b \<Rightarrow> find (\<lambda>cat. cat_Id cat = b) all_cats
               | QCategory c \<Rightarrow> Some c
               | _ \<Rightarrow> None))"

definition get_builtincategory ::
  "'c Host \<Rightarrow> cat_query \<Rightarrow> 'c Document option \<Rightarrow> error + int option" where
  "get_builtincategory host cat_name_or_id d =
     (case (case cat_name_or_id of
              QStr s \<Rightarrow>
                (case get_category host (QStr s) None of
                   Inl err \<Rightarrow> Inl err
                 | Inr None \<Rightarrow> Inr None
                 | Inr (Some cat) \<Rightarrow> Inr (Some (cat_Id cat)))
            | QElementId i \<Rightarrow> Inr (Some i)
            | _ \<Rightarrow> Inr None) of
        Inl err \<Rightarrow> Inl err
      | Inr None \<Rightarrow> Inr None
      | Inr (Some cat_id) \<Rightarrow>
          (if cat_id \<noteq> 0 then
             Inr (find (\<lambda>bicat. bicat = cat_id) (BuiltInCategory_values host))
           else Inr None))"

fun elements_of_bicats :: "'c Host \<Rightarrow> int list \<Rightarrow> Element list \<Rightarrow> error + Element list" where
  \<comment> \<open>\<^verbatim>\<open>[x for x in elements if get_builtincategory(x.Category.Name) in element_bicats]\<close>\<close>
  "elements_of_bicats host element_bicats [] = Inr []"
| "elements_of_bicats host element_bicats (x # xs) =
     (case Category x of
        None \<Rightarrow> Inl (AttributeError ''NoneType object has no attribute Name'')
      | Some c \<Rightarrow>
          (case get_builtincategory host (QStr (cat_Name c)) None of
             Inl err \<Rightarrow> Inl err
           | Inr bicat \<Rightarrow>
               (case elements_of_bicats host element_bicats xs of
                  Inl err \<Rightarrow> Inl err
                | Inr r \<Rightarrow>
                    Inr (if (case bicat of None \<Rightarrow> False | Some b \<Rightarrow> b \<in> set element_bicats)
                         then x # r else r))))"

definition get_elements_by_category ::
  "'c Host \<Rightarrow> int list \<Rightarrow> Element list option \<Rightarrow> 'c Document option \<Rightarrow> error + Element list" where
  \<comment> \<open>Without source elements the host collects: the elements that pass one of the
      category filters and are not element types.\<close>
  "get_elements_by_category host element_bicats elements d =
     (case elements of
        Some (e # es) \<Rightarrow> elements_of_bicats host element_bicats (e # es)
      | _ \<Rightarrow>
          (case collector (doc_or_host host d) of
             Inl err \<Rightarrow> Inl err
           | Inr x \<Rightarrow>
               Inr (filter (\<lambda>e. (case Category e of
                                    None \<Rightarrow> False
                                  | Some c \<Rightarrow> cat_Id c \<in> set element_bicats)
                                \<and> \<not> IsElementType e)
                      (Elements x))))"

section \<open>View references\<close>






section \<open>Spatial elements\<close>


section \<open>Families\<close>

definition get_family_type :: "string \<Rightarrow> 'c Document \<Rightarrow> error + FamilyType option" where
  "get_family_type type_name family_doc =
     (if IsFamilyDocument family_doc then
        Inr (find (\<lambda>ftype. ft_Name ftype = type_name) (FamilyTypes family_doc))
      else Inl (PyRevitException ''Document is not a family''))"

definition get_family_parameter :: "string \<Rightarrow> 'c Document \<Rightarrow> error + FamilyParameter option" where
  "get_family_parameter param_name family_doc =
     (if IsFamilyDocument family_doc then
        Inr (find (\<lambda>fparam. fp_Definition_Name fparam = param_name)
               (FamilyParameters family_doc))
      else Inl (PyRevitException ''Document is not a family''))"

section \<open>Links\<close>

fun err_text :: "error \<Rightarrow> string" where
  \<comment> \<open>What formatting an exception into a message gives: its text.\<close>
  "err_text (PyRevitException m) = m"
| "err_text (AttributeError m) = m"
| "err_text (TypeError m) = m"
| "err_text (UnboundLocalError m) = m"
| "err_text (HostException m) = m"

record ExternalFileReference =
  ExternalFileReferenceType :: int

text \<open>
  The transmission data of a model file, as the host hands it out: each of its two
  methods may fail in the host.
\<close>

record TransmissionData =
  GetAllExternalFileReferenceIds :: "error + int list"
  GetLastSavedReferenceData :: "int \<Rightarrow> error + ExternalFileReference option"

text \<open>
  The host functions \<^verbatim>\<open>get_links\<close> calls and the wrapper class \<^verbatim>\<open>db.ExternalRef\<close> of
  another module of the package (\<open>'x\<close> the type of its instances). A model path is the
  host's object for a path (\<open>'mp\<close>); \<open>ModelPath_str\<close> is how it prints, and
  \<open>linktype_truthy\<close> which members of \<^verbatim>\<open>ExternalFileReferenceType\<close> count as true.
\<close>

record ('mp, 'x) links_host =
  ConvertUserVisiblePathToModelPath :: "string \<Rightarrow> error + 'mp option"
  ModelPath_str :: "'mp \<Rightarrow> string"
  ReadTransmissionData :: "'mp \<Rightarrow> error + TransmissionData option"
  ExternalRef :: "Element option \<Rightarrow> ExternalFileReference option \<Rightarrow> error + 'x"
  linktype_truthy :: "int \<Rightarrow> bool"

fun links_loop ::
  "('mp, 'x) links_host \<Rightarrow> TransmissionData \<Rightarrow> 'c Document \<Rightarrow> int option \<Rightarrow> int list
     \<Rightarrow> 'x list \<Rightarrow> error + 'x list" where
  "links_loop api trans_data x linktype [] links = Inr links"
| "links_loop api trans_data x linktype (ref_id # rest) links =
     (case GetLastSavedReferenceData trans_data ref_id of
        Inl err \<Rightarrow> Inl err
      | Inr ext_ref \<Rightarrow>
          (let link = GetElement x ref_id in
           if (case linktype of None \<Rightarrow> False | Some t \<Rightarrow> linktype_truthy api t) then
             (case ext_ref of
                None \<Rightarrow>
                  Inl (AttributeError
                         ''NoneType object has no attribute ExternalFileReferenceType'')
              | Some r \<Rightarrow>
                  (if Some (ExternalFileReferenceType r) = linktype then
                     (case ExternalRef api link ext_ref of
                        Inl err \<Rightarrow> Inl err
                      | Inr l \<Rightarrow> links_loop api trans_data x linktype rest (links @ [l]))
                   else links_loop api trans_data x linktype rest links))
           else
             (case ExternalRef api link ext_ref of
                Inl err \<Rightarrow> Inl err
              | Inr l \<Rightarrow> links_loop api trans_data x linktype rest (links @ [l]))))"

definition read_links ::
  "('mp, 'x) links_host \<Rightarrow> 'c Document \<Rightarrow> int option \<Rightarrow> 'mp \<Rightarrow> error + 'x list" where
  \<comment> \<open>The body of the \<^verbatim>\<open>try\<close> statement of \<^verbatim>\<open>get_links\<close>.\<close>
  "read_links api x linktype model_path =
     (case ReadTransmissionData api model_path of
        Inl err \<Rightarrow> Inl err
      | Inr None \<Rightarrow>
          Inl (AttributeError
                 ''NoneType object has no attribute GetAllExternalFileReferenceIds'')
      | Inr (Some trans_data) \<Rightarrow>
          (case GetAllExternalFileReferenceIds trans_data of
             Inl err \<Rightarrow> Inl err
           | Inr external_refs \<Rightarrow> links_loop api trans_data x linktype external_refs []))"

definition get_links ::
  "('mp, 'x) links_host \<Rightarrow> 'c Host \<Rightarrow> int option \<Rightarrow> 'c Document option \<Rightarrow> error + 'x list" where
  "get_links api host linktype d =
     (case doc_or_host host d of
        None \<Rightarrow> Inl (AttributeError ''NoneType object has no attribute PathName'')
      | Some x \<Rightarrow>
          (let location = PathName x in
           if location = [] then Inl (PyRevitException ''PathName is empty. Model is not saved.'')
           else
             (case ConvertUserVisiblePathToModelPath api location of
                Inl err \<Rightarrow> Inl err
              | Inr None \<Rightarrow> Inl (PyRevitException ''Model is not saved. Can not read links.'')
              | Inr (Some model_path) \<Rightarrow>
                  (case read_links api x linktype model_path of
                     Inr links \<Rightarrow> Inr links
                   | Inl data_err \<Rightarrow>
                       Inl (PyRevitException
                              (''Error reading links from model path: ''
                                 @ ModelPath_str api model_path @ '' | ''
                                 @ err_text data_err))))))"

section \<open>Grids\<close>

datatype SetComparisonResult =
    Overlap | Subset | Superset | Disjoint | Equal | BothEmpty | LeftEmpty | RightEmpty

record ('p, 'c) GridPoint =
  point :: 'p
  grids :: "'c Grid list"

definition get_all_linkeddocs ::
  "'c Host \<Rightarrow> 'c Document option \<Rightarrow> error + 'c LinkDocument option list" where
  \<comment> \<open>A set of documents; the list holds each once.\<close>
  "get_all_linkeddocs host d =
     (case collector (doc_or_host host d) of
        Inl err \<Rightarrow> Inl err
      | Inr x \<Rightarrow> Inr (remdups (LinkInstanceDocuments x)))"

definition get_all_grids ::
  "'c Host \<Rightarrow> bool \<Rightarrow> 'c Document option \<Rightarrow> error + 'c Grid list" where
  \<comment> \<open>\<^verbatim>\<open>get_all_grids\<close> with \<^verbatim>\<open>group_by_direction\<close> left at \<^verbatim>\<open>False\<close>. The linked
      documents are those of the active document, and an absent document is skipped.\<close>
  "get_all_grids host include_linked_models d =
     (case (if include_linked_models then get_all_linkeddocs host None else Inr []) of
        Inl err \<Rightarrow> Inl err
      | Inr linked \<Rightarrow>
          Inr ((case doc_or_host host d of None \<Rightarrow> [] | Some x \<Rightarrow> Grids x)
               @ concat (map (\<lambda>tdoc. case tdoc of None \<Rightarrow> [] | Some l \<Rightarrow> link_Grids l) linked)))"

definition XYZPoint :: "'p \<Rightarrow> 'p" where
  \<comment> \<open>Modelled from the spec: the wrapper class \<^verbatim>\<open>db.XYZPoint\<close> of another module of the
      package. The point of a grid point is a 3-D coordinate: two wrappers are the same
      dictionary key exactly when they wrap the same coordinates (\<open>'p\<close>).\<close>
  "XYZPoint p = p"

text \<open>
  \<^verbatim>\<open>curve.Intersect(other, results)\<close> is the host's geometry: \<open>Intersect\<close> gives the
  comparison result and the points written to the result array. A dictionary is an
  association list (a later store under a key already present replaces the value in
  place). The order in which a dictionary lists its items is not fixed by the language,
  so only statements that do not depend on the order of the result carry over to the
  code.
\<close>

fun grid2_loop ::
  "('c \<Rightarrow> 'c \<Rightarrow> SetComparisonResult \<times> 'p list) \<Rightarrow> 'c Grid \<Rightarrow> 'c Grid list
     \<Rightarrow> ('p \<times> 'c Grid list) list \<Rightarrow> error + ('p \<times> 'c Grid list) list" where
  "grid2_loop Intersect grid1 [] gints = Inr gints"
| "grid2_loop Intersect grid1 (grid2 # rest) gints =
     (case Intersect (Curve grid1) (Curve grid2) of
        (intres, results) \<Rightarrow>
          (if intres = Overlap then
             (case results of
                [] \<Rightarrow> Inl (HostException ''ArgumentOutOfRangeException: index'')
              | p # ps \<Rightarrow>
                  grid2_loop Intersect grid1 rest
                    (AList.update (XYZPoint p) [grid1, grid2] gints))
           else grid2_loop Intersect grid1 rest gints))"

fun grid1_loop ::
  "('c \<Rightarrow> 'c \<Rightarrow> SetComparisonResult \<times> 'p list) \<Rightarrow> 'c Grid list \<Rightarrow> 'c Grid list
     \<Rightarrow> ('p \<times> 'c Grid list) list \<Rightarrow> error + ('p \<times> 'c Grid list) list" where
  "grid1_loop Intersect source_grids [] gints = Inr gints"
| "grid1_loop Intersect source_grids (grid1 # rest) gints =
     (case grid2_loop Intersect grid1 source_grids gints of
        Inl err \<Rightarrow> Inl err
      | Inr gints' \<Rightarrow> grid1_loop Intersect source_grids rest gints')"

definition get_gridpoints ::
  "('c \<Rightarrow> 'c \<Rightarrow> SetComparisonResult \<times> 'p list) \<Rightarrow> 'c Host \<Rightarrow> 'c Grid list option \<Rightarrow> bool
     \<Rightarrow> 'c Document option \<Rightarrow> error + ('p, 'c) GridPoint list" where
  "get_gridpoints Intersect host grids_arg include_linked_models d =
     (case (case grids_arg of
              Some (g # gs) \<Rightarrow> Inr (g # gs)
            | _ \<Rightarrow> get_all_grids host include_linked_models (doc_or_host host d)) of
        Inl err \<Rightarrow> Inl err
      | Inr source_grids \<Rightarrow>
          (case grid1_loop Intersect source_grids source_grids [] of
             Inl err \<Rightarrow> Inl err
           | Inr gints \<Rightarrow> Inr (map (\<lambda>(k, v). \<lparr>point = k, grids = v\<rparr>) gints)))"

section \<open>Notions the properties are stated with\<close>








definition category_listed :: "int list \<Rightarrow> Element \<Rightarrow> bool" where
  \<comment> \<open>The category of the element is one of the built-in categories of the list: a
      built-in category is the id of its category.\<close>
  "category_listed element_bicats x =
     (case Category x of None \<Rightarrow> False | Some c \<Rightarrow> cat_Id c \<in> set element_bicats)"

definition builtin_categories :: "'c Host \<Rightarrow> int list \<Rightarrow> bool" where
  \<comment> \<open>A list of built-in categories: members of \<^verbatim>\<open>BuiltInCategory\<close>, none of which is
      numbered zero.\<close>
  "builtin_categories host element_bicats =
     list_all (\<lambda>b. b \<noteq> 0 \<and> b \<in> set (BuiltInCategory_values host)) element_bicats"

definition names_resolve :: "'c Host \<Rightarrow> Element list \<Rightarrow> bool" where
  \<comment> \<open>Every element has a category, and the first category of the active document
      (its categories, then their subcategories) with the name of that category has the
      id of that category.\<close>
  "names_resolve host elements =
     list_all
       (\<lambda>x. case Category x of
               None \<Rightarrow> False
             | Some c \<Rightarrow>
                 (case doc host of
                    None \<Rightarrow> False
                  | Some a \<Rightarrow>
                      (case find (\<lambda>k. cat_Name k = cat_Name c)
                              (Categories a @ concat (map SubCategories (Categories a))) of
                         None \<Rightarrow> False
                       | Some cat \<Rightarrow> cat_Id cat = cat_Id c)))
       elements"

definition collected_of_bicats :: "'c Document \<Rightarrow> int list \<Rightarrow> Element list" where
  \<comment> \<open>What the host collects for a list of category filters.\<close>
  "collected_of_bicats x element_bicats =
     filter (\<lambda>e. (case Category e of None \<Rightarrow> False | Some c \<Rightarrow> cat_Id c \<in> set element_bicats)
                  \<and> \<not> IsElementType e)
       (Elements x)"

definition non_revision_schedules :: "'c Document \<Rightarrow> ViewSheet \<Rightarrow> ScheduleSheetInstance list" where
  \<comment> \<open>The schedule instances on the sheet other than titleblock revision schedules.\<close>
  "non_revision_schedules x viewsheet =
     filter (\<lambda>s. OwnerViewId s = sheet_Id viewsheet \<and>
                  (case GetElement_ViewSchedule x (ScheduleId s) of
                     None \<Rightarrow> False
                   | Some sched \<Rightarrow> \<not> IsTitleblockRevisionSchedule sched))
       (ScheduleSheetInstances x)"

definition schedules_resolve :: "'c Document \<Rightarrow> ViewSheet \<Rightarrow> bool" where
  \<comment> \<open>Every schedule instance on the sheet names a schedule of the document.\<close>
  "schedules_resolve x viewsheet =
     (\<forall>s\<in>set (ScheduleSheetInstances x).
        OwnerViewId s = sheet_Id viewsheet \<longrightarrow> GetElement_ViewSchedule x (ScheduleId s) \<noteq> None)"









definition is_py_exception :: "error \<Rightarrow> bool" where
  "is_py_exception e = (case e of PyRevitException m \<Rightarrow> True | _ \<Rightarrow> False)"

definition links_error :: "('mp, 'x) links_host \<Rightarrow> 'mp \<Rightarrow> error \<Rightarrow> error" where
  \<comment> \<open>The domain error that carries the model path and the text of the failure.\<close>
  "links_error api model_path data_err =
     PyRevitException
       (''Error reading links from model path: '' @ ModelPath_str api model_path @ '' | ''
          @ err_text data_err)"

definition filters_by_type :: "('mp, 'x) links_host \<Rightarrow> int option \<Rightarrow> bool" where
  \<comment> \<open>A link type is given and counts as true.\<close>
  "filters_by_type api linktype =
     (case linktype of None \<Rightarrow> False | Some t \<Rightarrow> linktype_truthy api t)"

definition is_wrapped ::
  "('mp, 'x) links_host \<Rightarrow> int option \<Rightarrow> ExternalFileReference option \<Rightarrow> bool" where
  \<comment> \<open>The reference is one \<^verbatim>\<open>get_links\<close> wraps: no link type filters, or the saved
      reference data has the link type asked for.\<close>
  "is_wrapped api linktype ext_ref =
     (if filters_by_type api linktype then
        (case ext_ref of None \<Rightarrow> False | Some r \<Rightarrow> Some (ExternalFileReferenceType r) = linktype)
      else True)"

definition ref_reads ::
  "('mp, 'x) links_host \<Rightarrow> TransmissionData \<Rightarrow> 'c Document \<Rightarrow> int option \<Rightarrow> int \<Rightarrow> bool" where
  \<comment> \<open>Nothing fails for this reference: its saved data is read, is there when a link
      type filters, and the wrapper is built where the reference is wrapped.\<close>
  "ref_reads api trans_data x linktype ref_id =
     (case GetLastSavedReferenceData trans_data ref_id of
        Inl err \<Rightarrow> False
      | Inr ext_ref \<Rightarrow>
          (if filters_by_type api linktype \<and> ext_ref = None then False
           else if is_wrapped api linktype ext_ref then
             (case ExternalRef api (GetElement x ref_id) ext_ref of
                Inl err \<Rightarrow> False
              | Inr l \<Rightarrow> True)
           else True))"

section \<open>Sample data\<close>

definition sample_param :: "StorageType \<Rightarrow> string \<Rightarrow> int \<Rightarrow> Parameter" where
  "sample_param st s i =
     \<lparr>StorageType = st, AsDouble = 0, AsInteger = i,
      AsString = (if st = ST_String then Some s else None), AsElementId = - 1\<rparr>"

definition sample_element :: "int \<Rightarrow> Category option \<Rightarrow> (string \<times> Parameter) list \<Rightarrow> Element" where
  "sample_element i c ps =
     \<lparr>Id = i, IsElementType = False, classes = [], Category = c, Name = ''element'',
      ViewName = [], Parameters = ps, BuiltInParameters = [], Area = 0\<rparr>"

definition sample_document :: "nat Document" where
  \<comment> \<open>A saved project document with nothing in it.\<close>
  "sample_document =
     \<lparr>PathName = ''C:/models/project.rvt'', IsFamilyDocument = False, Elements = [],
      ElementsInView = (\<lambda>v. []), Sheets = [], Viewports = [], ScheduleSheetInstances = [],
      ViewSchedules = [], Worksets = [], ParameterBindings = [], Categories = [],
      FamilyTypes = [], FamilyParameters = [], Grids = [], LinkInstanceDocuments = []\<rparr>"

definition sample_host :: "nat Document option \<Rightarrow> nat Host" where
  \<comment> \<open>A host with the given active document, no shared-parameter file, and walls,
      doors and views among the built-in categories.\<close>
  "sample_host d =
     \<lparr>doc = d, SharedParametersFilename = None, OpenSharedParameterFile = None,
      is_newer_than_2019 = True,
      BuiltInCategory_values = [- 2000011, - 2000023, - 2000279],
      BUILTINCATEGORIES_VIEW = [- 2000279]\<rparr>"

definition sample_sheet :: "int \<Rightarrow> string \<Rightarrow> int list \<Rightarrow> ViewSheet" where
  "sample_sheet i n vps =
     \<lparr>sheet_Id = i, SheetNumber = n, IsPlaceholder = False, sheet_Parameter = [],
      AllViewports = vps\<rparr>"

definition marked_elements :: "Element list" where
  \<comment> \<open>Two elements with a string mark, one with a number, one with no mark.\<close>
  "marked_elements =
     [sample_element 1 None [(''Mark'', sample_param ST_String ''A-101'' 0)],
      sample_element 2 None [(''Mark'', sample_param ST_String ''101'' 0)],
      sample_element 3 None [(''Mark'', sample_param ST_Integer [] 101)],
      sample_element 4 None []]"

definition marked_document :: "nat Document" where
  "marked_document = sample_document\<lparr>Elements := marked_elements\<rparr>"

definition numbered_document :: "nat Document" where
  \<comment> \<open>Elements whose mark, where they have one, is a number.\<close>
  "numbered_document = sample_document\<lparr>Elements := drop 2 marked_elements\<rparr>"

definition unset_document :: "nat Document" where
  \<comment> \<open>As \<open>marked_document\<close>, with one more element whose mark has no storage type.\<close>
  "unset_document =
     sample_document
       \<lparr>Elements := marked_elements @ [sample_element 5 None [(''Mark'', sample_param ST_None [] 0)]]\<rparr>"

definition is_element :: "Element pyval \<Rightarrow> bool" where
  \<comment> \<open>\<^verbatim>\<open>isinstance(x, DB.Element)\<close>\<close>
  "is_element v = (case v of PyObj e \<Rightarrow> True | _ \<Rightarrow> False)"

definition sheets_document :: "nat Document" where
  \<comment> \<open>Two sheets; the second shows viewport 101, and the first carries a titleblock
      revision schedule.\<close>
  "sheets_document =
     sample_document
       \<lparr>Sheets := [sample_sheet 10 ''A101'' [], sample_sheet 11 ''A102'' [101]],
        Viewports := [\<lparr>vp_Id = 101, ViewId = 7\<rparr>],
        ScheduleSheetInstances := [\<lparr>OwnerViewId = 10, ScheduleId = 50\<rparr>],
        ViewSchedules := [\<lparr>sched_Id = 50, IsTitleblockRevisionSchedule = True\<rparr>]\<rparr>"

definition sample_ProjectParameter_class ::
  "(Definition \<times> nat \<times> ExternalDefinition option) ProjectParameter_class" where
  \<comment> \<open>A wrapper that keeps what it is given, is named and identified by its definition,
      and equals its name and its id.\<close>
  "sample_ProjectParameter_class =
     \<lparr>ProjectParameter = (\<lambda>k b e. (k, b, e)),
      pp_name = (\<lambda>pp. def_Name (fst pp)),
      pp_param_id = (\<lambda>pp. def_Id (fst pp)),
      pp_eq = (\<lambda>pp v. v = PyStr (def_Name (fst pp)) \<or> v = PyElementId (def_Id (fst pp)))\<rparr>"

definition bound_document :: "nat Document" where
  \<comment> \<open>A project with two bound parameters.\<close>
  "bound_document =
     sample_document
       \<lparr>ParameterBindings :=
          [(\<lparr>def_Name = ''Fire Rating'', def_Id = 501\<rparr>, 0),
           (\<lparr>def_Name = ''Zone'', def_Id = 502\<rparr>, 1)]\<rparr>"

definition sample_links_host :: "(string, Element option \<times> ExternalFileReference option) links_host" where
  \<comment> \<open>A host in which a model path is the path itself and prints as such, reading the
      transmission data of any model fails, and the wrapper keeps what it is given.\<close>
  "sample_links_host =
     \<lparr>ConvertUserVisiblePathToModelPath = (\<lambda>p. Inr (Some p)),
      ModelPath_str = (\<lambda>mp. mp),
      ReadTransmissionData = (\<lambda>mp. Inl (HostException ''The file is not a valid model'')),
      ExternalRef = (\<lambda>link ext_ref. Inr (link, ext_ref)),
      linktype_truthy = (\<lambda>t. t \<noteq> 0)\<rparr>"

definition unsaved_document :: "nat Document" where
  "unsaved_document = sample_document\<lparr>PathName := []\<rparr>"

definition walls_document :: "nat Document" where
  \<comment> \<open>A wall and a door, with their two categories.\<close>
  "walls_document =
     sample_document
       \<lparr>Elements := [sample_element 1 (Some (Cat ''Walls'' (- 2000011) [])) [],
                     sample_element 2 (Some (Cat ''Doors'' (- 2000023) [])) []],
        Categories := [Cat ''Walls'' (- 2000011) [], Cat ''Doors'' (- 2000023) []]\<rparr>"


definition sample_Intersect :: "nat \<Rightarrow> nat \<Rightarrow> SetComparisonResult \<times> (nat \<times> nat) list" where
  \<comment> \<open>Lines named by numbers: a line equals itself, and two different lines cross in
      one point, named by the two lines.\<close>
  "sample_Intersect a b =
     (if a = b then (Equal, []) else (Overlap, [(min a b, max a b)]))"

definition sample_grid :: "nat \<Rightarrow> nat Grid" where
  "sample_grid i = \<lparr>grid_Id = int i, Curve = i\<rparr>"

definition sample_transmission :: TransmissionData where
  \<comment> \<open>Two external references; the saved data of the second cannot be read.\<close>
  "sample_transmission =
     \<lparr>GetAllExternalFileReferenceIds = Inr [301, 302],
      GetLastSavedReferenceData =
        (\<lambda>ref_id. if ref_id = 301 then Inr (Some \<lparr>ExternalFileReferenceType = 1\<rparr>)
                   else Inl (HostException ''The reference data is damaged''))\<rparr>"

definition reading_links_host :: "(string, Element option \<times> ExternalFileReference option) links_host" where
  \<comment> \<open>As \<open>sample_links_host\<close>, but the transmission data of a model is read.\<close>
  "reading_links_host =
     sample_links_host\<lparr>ReadTransmissionData := (\<lambda>mp. Inr (Some sample_transmission))\<rparr>"

definition unwrapping_links_host :: "(string, Element option \<times> ExternalFileReference option) links_host" where
  \<comment> \<open>As \<open>reading_links_host\<close>, but the wrapper class refuses what it is given.\<close>
  "unwrapping_links_host =
     reading_links_host\<lparr>ExternalRef := (\<lambda>link ext_ref. Inl (TypeError ''expected ExternalFileReference''))\<rparr>"

definition plain_document :: "nat Document" where
  \<comment> \<open>A door, and no category to look its category up in.\<close>
  "plain_document =
     sample_document\<lparr>Elements := [sample_element 2 (Some (Cat ''Doors'' (- 2000023) [])) []]\<rparr>"





section \<open>Filtering elements by a parameter value\<close>












text \<open>
  The two modes on the sample document: the query \<^verbatim>\<open>101\<close> is in both string marks and
  equals one of them; the number 101 equals the mark of the third element, and where
  every mark is a number the two modes agree on it.
\<close>

lemma get_elements_by_parameter_sample:
  "get_elements_by_parameter (sample_host (Some marked_document))
     (PyStr ''Mark'' :: unit pyval) (PyStr ''101'' :: unit pyval) None True
     = Inr (take 2 marked_elements)"
  "get_elements_by_parameter (sample_host (Some marked_document))
     (PyStr ''Mark'' :: unit pyval) (PyStr ''101'' :: unit pyval) None False
     = Inr [marked_elements ! 1]"
  "get_elements_by_parameter (sample_host (Some numbered_document))
     (PyStr ''Mark'' :: unit pyval) (PyInt 101 :: unit pyval) None True
     = Inr [marked_elements ! 2]"
  "get_elements_by_parameter (sample_host (Some numbered_document))
     (PyStr ''Mark'' :: unit pyval) (PyInt 101 :: unit pyval) None False
     = Inr [marked_elements ! 2]"
  by (simp_all add: get_elements_by_parameter_def get_all_elements_def collector_def
        doc_or_host_def sample_host_def marked_document_def numbered_document_def
        marked_elements_def sample_element_def sample_param_def LookupParameter_def
        get_param_value_def param_matches_def py_eq_def)

text \<open>
  A parameter with the storage type \<^verbatim>\<open>None\<close> leaves \<^verbatim>\<open>get_param_value\<close> without a
  value, and the call raises, in either mode; in the partial mode a query that is not a
  string cannot be looked for in a string.
\<close>

lemma get_elements_by_parameter_raises_sample:
  "get_elements_by_parameter (sample_host (Some unset_document))
     (PyStr ''Mark'' :: unit pyval) (PyStr ''101'' :: unit pyval) None False
     = Inl (UnboundLocalError ''local variable value referenced before assignment'')"
  "get_elements_by_parameter (sample_host (Some marked_document))
     (PyStr ''Mark'' :: unit pyval) (PyInt 101 :: unit pyval) None True
     = Inl (TypeError ''in <string> requires string as left operand'')"
  by (simp_all add: get_elements_by_parameter_def get_all_elements_def collector_def
        doc_or_host_def sample_host_def marked_document_def unset_document_def
        marked_elements_def sample_element_def sample_param_def LookupParameter_def
        get_param_value_def param_matches_def py_eq_def)

section \<open>Looking a sheet up by its number\<close>

lemma doc_or_host_idem:
  "doc_or_host host d = Some x \<Longrightarrow> doc_or_host host (doc_or_host host d) = Some x"
  by (simp add: doc_or_host_def)

lemma get_sheets_all:
  "doc_or_host host d = Some x \<Longrightarrow> get_sheets host True True d = Inr (Sheets x)"
  by (simp add: get_sheets_def collector_def)

text \<open>
  Claim C2. For a document, given or active, and a sheet number that is not the
  \<^verbatim>\<open>SheetNumber\<close> of any of its sheets, \<^verbatim>\<open>get_sheet_by_number\<close> returns \<^verbatim>\<open>None\<close>:
  it returns, and raises nothing.
\<close>

theorem get_sheet_by_number_absent:
  assumes "doc_or_host host d = Some x"
      and "sheet_num \<notin> SheetNumber ` set (Sheets x)"
  shows "get_sheet_by_number host sheet_num d = Inr None"
proof -
  have "get_sheets host True True (doc_or_host host d) = Inr (Sheets x)"
    by (rule get_sheets_all[OF doc_or_host_idem[OF assms(1)]])
  moreover have "find (\<lambda>s. SheetNumber s = sheet_num) (Sheets x) = None"
    using assms(2) by (auto simp: find_None_iff)
  ultimately show ?thesis by (simp add: get_sheet_by_number_def)
qed

theorem get_sheet_by_number_absent_witness:
  "doc_or_host (sample_host None) (Some sheets_document) = Some sheets_document \<and>
   ''A999'' \<notin> SheetNumber ` set (Sheets sheets_document) \<and>
   get_sheet_by_number (sample_host None) ''A999'' (Some sheets_document) = Inr None"
proof -
  have h1: "doc_or_host (sample_host None) (Some sheets_document) = Some sheets_document"
    by (simp add: doc_or_host_def)
  have h2: "''A999'' \<notin> SheetNumber ` set (Sheets sheets_document)"
    by (simp add: sheets_document_def sample_sheet_def)
  from get_sheet_by_number_absent[OF h1 h2] h1 h2 show ?thesis by simp
qed

lemma get_sheet_by_number_present_sample:
  "get_sheet_by_number (sample_host None) ''A102'' (Some sheets_document)
     = Inr (Some (sample_sheet 11 ''A102'' [101]))"
  by (simp add: get_sheet_by_number_def get_sheets_def collector_def doc_or_host_def
        sheets_document_def sample_sheet_def)

section \<open>The id of a project parameter\<close>

lemma get_defined_sharedparams_returns:
  "\<exists>defs. get_defined_sharedparams host = Inr defs"
  by (simp add: get_defined_sharedparams_def get_sharedparam_definition_file_def
        split: option.splits)

lemma get_project_parameters_returns:
  "\<exists>pps. get_project_parameters host db d = Inr pps"
proof -
  obtain defs where "get_defined_sharedparams host = Inr defs"
    using get_defined_sharedparams_returns by blast
  then show ?thesis
    by (simp add: get_project_parameters_def Let_def split: option.splits)
qed

text \<open>
  Claim C3. Collecting the project parameters of the active document returns, and for
  a name that none of them has, \<^verbatim>\<open>get_project_parameter_id\<close> raises the domain error
  \<^verbatim>\<open>PyRevitException\<close> whose message names the parameter; it neither returns nor
  raises anything else.
\<close>

theorem get_project_parameter_id_not_found:
  "\<exists>pps. get_project_parameters host db None = Inr pps \<and>
     (param_name \<notin> pp_name db ` set pps \<longrightarrow>
        get_project_parameter_id host db param_name
          = Inl (PyRevitException (''Parameter not found: '' @ param_name)))"
proof -
  obtain pps where pps: "get_project_parameters host db None = Inr pps"
    using get_project_parameters_returns by blast
  have "get_project_parameter_id host db param_name
          = Inl (PyRevitException (''Parameter not found: '' @ param_name))"
    if "param_name \<notin> pp_name db ` set pps"
  proof -
    from that have "find (\<lambda>pp. pp_name db pp = param_name) pps = None"
      by (auto simp: find_None_iff)
    then show ?thesis by (simp add: get_project_parameter_id_def pps)
  qed
  with pps show ?thesis by blast
qed

lemma get_project_parameters_sample:
  "get_project_parameters (sample_host (Some bound_document)) sample_ProjectParameter_class None
     = Inr [(\<lparr>def_Name = ''Fire Rating'', def_Id = 501\<rparr>, 0, None),
            (\<lparr>def_Name = ''Zone'', def_Id = 502\<rparr>, 1, None)]"
  by (simp add: get_project_parameters_def get_defined_sharedparams_def
        get_sharedparam_definition_file_def sample_host_def doc_or_host_def
        bound_document_def sample_document_def sample_ProjectParameter_class_def)

theorem get_project_parameter_id_not_found_witness:
  "get_project_parameter_id (sample_host (Some bound_document)) sample_ProjectParameter_class
     ''Phase'' = Inl (PyRevitException ''Parameter not found: Phase'')"
proof -
  obtain pps where
    pps: "get_project_parameters (sample_host (Some bound_document))
            sample_ProjectParameter_class None = Inr pps"
    and imp: "''Phase'' \<notin> pp_name sample_ProjectParameter_class ` set pps \<longrightarrow>
        get_project_parameter_id (sample_host (Some bound_document))
          sample_ProjectParameter_class ''Phase''
          = Inl (PyRevitException (''Parameter not found: '' @ ''Phase''))"
    using get_project_parameter_id_not_found
      [of "sample_host (Some bound_document)" sample_ProjectParameter_class "''Phase''"]
    by blast
  from pps have "pps = [(\<lparr>def_Name = ''Fire Rating'', def_Id = 501\<rparr>, 0, None),
                        (\<lparr>def_Name = ''Zone'', def_Id = 502\<rparr>, 1, None)]"
    by (simp add: get_project_parameters_sample)
  then have "''Phase'' \<notin> pp_name sample_ProjectParameter_class ` set pps"
    by (simp add: sample_ProjectParameter_class_def)
  with imp show ?thesis by simp
qed

lemma get_project_parameter_id_found_sample:
  "get_project_parameter_id (sample_host (Some bound_document)) sample_ProjectParameter_class
     ''Zone'' = Inr 502"
  by (simp add: get_project_parameter_id_def get_project_parameters_sample,
      simp add: sample_ProjectParameter_class_def)

section \<open>Empty sheets\<close>

lemma schedules_of_sheet_filter:
  assumes "\<forall>s\<in>set l. OwnerViewId s = sheet_Id viewsheet \<longrightarrow>
             GetElement_ViewSchedule x (ScheduleId s) \<noteq> None"
  shows "schedules_of_sheet x viewsheet l =
           Inr (filter (\<lambda>s. OwnerViewId s = sheet_Id viewsheet \<and>
                  (case GetElement_ViewSchedule x (ScheduleId s) of
                     None \<Rightarrow> False
                   | Some sched \<Rightarrow> \<not> IsTitleblockRevisionSchedule sched)) l)"
  using assms
proof (induction l)
  case Nil
  then show ?case by simp
next
  case (Cons s l)
  then have IH: "schedules_of_sheet x viewsheet l =
           Inr (filter (\<lambda>s. OwnerViewId s = sheet_Id viewsheet \<and>
                  (case GetElement_ViewSchedule x (ScheduleId s) of
                     None \<Rightarrow> False
                   | Some sched \<Rightarrow> \<not> IsTitleblockRevisionSchedule sched)) l)"
    by simp
  show ?case
  proof (cases "OwnerViewId s = sheet_Id viewsheet")
    case True
    with Cons.prems obtain sched where "GetElement_ViewSchedule x (ScheduleId s) = Some sched"
      by auto
    with True IH show ?thesis by simp
  next
    case False
    with IH show ?thesis by simp
  qed
qed

lemma get_schedules_on_sheet_filter:
  assumes "schedules_resolve x viewsheet"
  shows "get_schedules_on_sheet host viewsheet (Some x) = Inr (non_revision_schedules x viewsheet)"
proof -
  have "schedules_of_sheet x viewsheet (ScheduleSheetInstances x)
          = Inr (non_revision_schedules x viewsheet)"
    unfolding non_revision_schedules_def
    by (rule schedules_of_sheet_filter) (use assms in \<open>simp add: schedules_resolve_def\<close>)
  then show ?thesis
    by (simp add: get_schedules_on_sheet_def collector_def doc_or_host_def)
qed

lemma is_sheet_empty_eq:
  assumes "schedules_resolve x viewsheet"
  shows "is_sheet_empty host x viewsheet =
           Inr (PyBool (AllViewports viewsheet = [] \<and> non_revision_schedules x viewsheet = []))"
  by (simp add: is_sheet_empty_def get_schedules_on_sheet_filter[OF assms])

text \<open>
  Claim C6. For a sheet whose schedule instances name schedules of its document,
  \<^verbatim>\<open>is_sheet_empty\<close> returns \<^verbatim>\<open>True\<close> exactly when the sheet has no viewport and no
  schedule instance other than titleblock revision schedules; so such a sheet is
  reported empty, and the same sheet with a single viewport is reported not empty.
\<close>

theorem is_sheet_empty_iff:
  assumes "schedules_resolve x viewsheet"
  shows "(is_sheet_empty host x viewsheet :: error + 'o pyval) =
           Inr (PyBool (AllViewports viewsheet = [] \<and> non_revision_schedules x viewsheet = []))
       \<and> (AllViewports viewsheet = [] \<and> non_revision_schedules x viewsheet = [] \<longrightarrow>
            (is_sheet_empty host x viewsheet :: error + 'o pyval) = Inr (PyBool True))
       \<and> (is_sheet_empty host x (viewsheet\<lparr>AllViewports := [vp]\<rparr>) :: error + 'o pyval)
            = Inr (PyBool False)"
proof -
  have "schedules_resolve x (viewsheet\<lparr>AllViewports := [vp]\<rparr>)"
    using assms by (simp add: schedules_resolve_def)
  then have "(is_sheet_empty host x (viewsheet\<lparr>AllViewports := [vp]\<rparr>) :: error + 'o pyval)
               = Inr (PyBool False)"
    by (simp add: is_sheet_empty_eq)
  then show ?thesis by (simp add: is_sheet_empty_eq[OF assms])
qed

theorem is_sheet_empty_iff_witness:
  "schedules_resolve sheets_document (sample_sheet 10 ''A101'' []) \<and>
   AllViewports (sample_sheet 10 ''A101'' []) = [] \<and>
   non_revision_schedules sheets_document (sample_sheet 10 ''A101'' []) = [] \<and>
   (is_sheet_empty (sample_host None) sheets_document (sample_sheet 10 ''A101'' [])
      :: error + unit pyval) = Inr (PyBool True) \<and>
   (is_sheet_empty (sample_host None) sheets_document
      ((sample_sheet 10 ''A101'' [])\<lparr>AllViewports := [101]\<rparr>) :: error + unit pyval)
      = Inr (PyBool False)"
proof -
  have h: "schedules_resolve sheets_document (sample_sheet 10 ''A101'' [])"
    by (simp add: schedules_resolve_def sheets_document_def sample_sheet_def
          sample_document_def GetElement_ViewSchedule_def)
  have e: "AllViewports (sample_sheet 10 ''A101'' []) = []"
    by (simp add: sample_sheet_def)
  have n: "non_revision_schedules sheets_document (sample_sheet 10 ''A101'' []) = []"
    by (simp add: non_revision_schedules_def sheets_document_def sample_sheet_def
          sample_document_def GetElement_ViewSchedule_def)
  from is_sheet_empty_iff[OF h, of "sample_host None" 101, where ?'o = unit] h e n
  show ?thesis by simp
qed

section \<open>Failures while reading the links of a model\<close>

lemma get_links_read:
  assumes "doc_or_host host d = Some x" and "PathName x \<noteq> []"
      and "ConvertUserVisiblePathToModelPath api (PathName x) = Inr (Some mp)"
  shows "get_links api host linktype d =
           (case read_links api x linktype mp of
              Inr links \<Rightarrow> Inr links
            | Inl data_err \<Rightarrow> Inl (links_error api mp data_err))"
  using assms by (simp add: get_links_def links_error_def Let_def split: sum.splits)

lemma links_loop_reads:
  assumes "ref_reads api trans_data x linktype ref_id"
  shows "\<exists>links'. links_loop api trans_data x linktype (ref_id # rest) links
                    = links_loop api trans_data x linktype rest links'"
  using assms
  by (auto simp: ref_reads_def is_wrapped_def filters_by_type_def Let_def
        split: sum.splits option.splits if_splits)

lemma links_loop_prefix:
  assumes "list_all (ref_reads api trans_data x linktype) pre"
  shows "\<exists>links'. links_loop api trans_data x linktype (pre @ rest) links
                    = links_loop api trans_data x linktype rest links'"
  using assms
proof (induction pre arbitrary: links)
  case Nil
  show ?case by auto
next
  case (Cons r pre)
  then have r: "ref_reads api trans_data x linktype r"
    and pre: "list_all (ref_reads api trans_data x linktype) pre"
    by simp_all
  obtain l1 where "links_loop api trans_data x linktype (r # (pre @ rest)) links
                     = links_loop api trans_data x linktype (pre @ rest) l1"
    using links_loop_reads[OF r] by blast
  moreover obtain l2 where "links_loop api trans_data x linktype (pre @ rest) l1
                     = links_loop api trans_data x linktype rest l2"
    using Cons.IH[OF pre] by blast
  ultimately show ?case by auto
qed

lemma links_loop_data_fails:
  assumes "GetLastSavedReferenceData trans_data r = Inl err"
  shows "links_loop api trans_data x linktype (r # post) links = Inl err"
  using assms by simp

lemma links_loop_wrapper_fails:
  assumes "GetLastSavedReferenceData trans_data r = Inr ext_ref"
      and "is_wrapped api linktype ext_ref"
      and "ExternalRef api (GetElement x r) ext_ref = Inl err"
  shows "links_loop api trans_data x linktype (r # post) links = Inl err"
  using assms
  by (auto simp: is_wrapped_def filters_by_type_def Let_def split: option.splits if_splits)

lemma links_loop_data_null:
  assumes "GetLastSavedReferenceData trans_data r = Inr None"
      and "filters_by_type api linktype"
  shows "links_loop api trans_data x linktype (r # post) links
           = Inl (AttributeError ''NoneType object has no attribute ExternalFileReferenceType'')"
  using assms by (auto simp: filters_by_type_def Let_def split: option.splits)

lemma read_links_ids:
  assumes "ReadTransmissionData api mp = Inr (Some trans_data)"
      and "GetAllExternalFileReferenceIds trans_data = Inr ids"
  shows "read_links api x linktype mp = links_loop api trans_data x linktype ids []"
  using assms by (simp add: read_links_def)

lemma read_links_at:
  assumes "ReadTransmissionData api mp = Inr (Some trans_data)"
      and "GetAllExternalFileReferenceIds trans_data = Inr (pre @ r # post)"
      and "list_all (ref_reads api trans_data x linktype) pre"
      and "\<And>links. links_loop api trans_data x linktype (r # post) links = Inl err"
  shows "read_links api x linktype mp = Inl err"
proof -
  obtain links' where "links_loop api trans_data x linktype (pre @ r # post) []
                         = links_loop api trans_data x linktype (r # post) links'"
    using links_loop_prefix[OF assms(3)] by blast
  then show ?thesis
    using assms(4) by (simp add: read_links_ids[OF assms(1) assms(2)])
qed

text \<open>
  Claim C8. Let the document have a path and the path convert to a model path, so
  that \<^verbatim>\<open>get_links\<close> reaches its \<^verbatim>\<open>try\<close> statement. Whatever fails in there is raised
  as the domain error \<^verbatim>\<open>PyRevitException\<close> that carries the model path and the text of
  the failure: reading the transmission data, or finding none; listing the external
  references; and, at the first reference for which something fails, reading its saved
  data, finding none where a link type filters, or building its wrapper. Whatever
  \<^verbatim>\<open>get_links\<close> then raises is a \<^verbatim>\<open>PyRevitException\<close>, never the host's exception, and
  where nothing fails it returns.
\<close>

theorem get_links_wraps_failures:
  assumes "doc_or_host host d = Some x" and "PathName x \<noteq> []"
      and "ConvertUserVisiblePathToModelPath api (PathName x) = Inr (Some mp)"
  shows "(\<forall>data_err. read_links api x linktype mp = Inl data_err \<longrightarrow>
            get_links api host linktype d = Inl (links_error api mp data_err))
       \<and> (\<forall>err. ReadTransmissionData api mp = Inl err \<longrightarrow>
            get_links api host linktype d = Inl (links_error api mp err))
       \<and> (ReadTransmissionData api mp = Inr None \<longrightarrow>
            get_links api host linktype d
              = Inl (links_error api mp
                  (AttributeError ''NoneType object has no attribute GetAllExternalFileReferenceIds'')))
       \<and> (\<forall>trans_data err.
            ReadTransmissionData api mp = Inr (Some trans_data) \<and>
            GetAllExternalFileReferenceIds trans_data = Inl err \<longrightarrow>
            get_links api host linktype d = Inl (links_error api mp err))
       \<and> (\<forall>trans_data pre r post err.
            ReadTransmissionData api mp = Inr (Some trans_data) \<and>
            GetAllExternalFileReferenceIds trans_data = Inr (pre @ r # post) \<and>
            list_all (ref_reads api trans_data x linktype) pre \<and>
            GetLastSavedReferenceData trans_data r = Inl err \<longrightarrow>
            get_links api host linktype d = Inl (links_error api mp err))
       \<and> (\<forall>trans_data pre r post.
            ReadTransmissionData api mp = Inr (Some trans_data) \<and>
            GetAllExternalFileReferenceIds trans_data = Inr (pre @ r # post) \<and>
            list_all (ref_reads api trans_data x linktype) pre \<and>
            GetLastSavedReferenceData trans_data r = Inr None \<and>
            filters_by_type api linktype \<longrightarrow>
            get_links api host linktype d
              = Inl (links_error api mp
                  (AttributeError ''NoneType object has no attribute ExternalFileReferenceType'')))
       \<and> (\<forall>trans_data pre r post ext_ref err.
            ReadTransmissionData api mp = Inr (Some trans_data) \<and>
            GetAllExternalFileReferenceIds trans_data = Inr (pre @ r # post) \<and>
            list_all (ref_reads api trans_data x linktype) pre \<and>
            GetLastSavedReferenceData trans_data r = Inr ext_ref \<and>
            is_wrapped api linktype ext_ref \<and>
            ExternalRef api (GetElement x r) ext_ref = Inl err \<longrightarrow>
            get_links api host linktype d = Inl (links_error api mp err))
       \<and> (\<forall>trans_data ids.
            ReadTransmissionData api mp = Inr (Some trans_data) \<and>
            GetAllExternalFileReferenceIds trans_data = Inr ids \<and>
            list_all (ref_reads api trans_data x linktype) ids \<longrightarrow>
            (\<exists>links. get_links api host linktype d = Inr links))
       \<and> (\<forall>e. get_links api host linktype d = Inl e \<longrightarrow> is_py_exception e)"
proof -
  note eq = get_links_read[OF assms, of linktype]
  have a: "\<forall>data_err. read_links api x linktype mp = Inl data_err \<longrightarrow>
            get_links api host linktype d = Inl (links_error api mp data_err)"
    by (simp add: eq)
  have b: "\<forall>err. ReadTransmissionData api mp = Inl err \<longrightarrow>
            get_links api host linktype d = Inl (links_error api mp err)"
    by (simp add: eq read_links_def)
  have b': "ReadTransmissionData api mp = Inr None \<longrightarrow>
            get_links api host linktype d
              = Inl (links_error api mp
                  (AttributeError ''NoneType object has no attribute GetAllExternalFileReferenceIds''))"
    by (simp add: eq read_links_def)
  have c: "\<forall>trans_data err.
            ReadTransmissionData api mp = Inr (Some trans_data) \<and>
            GetAllExternalFileReferenceIds trans_data = Inl err \<longrightarrow>
            get_links api host linktype d = Inl (links_error api mp err)"
    by (simp add: eq read_links_def)
  have d1: "\<forall>trans_data pre r post err.
            ReadTransmissionData api mp = Inr (Some trans_data) \<and>
            GetAllExternalFileReferenceIds trans_data = Inr (pre @ r # post) \<and>
            list_all (ref_reads api trans_data x linktype) pre \<and>
            GetLastSavedReferenceData trans_data r = Inl err \<longrightarrow>
            get_links api host linktype d = Inl (links_error api mp err)"
  proof (intro allI impI, elim conjE)
    fix trans_data pre r post err
    assume h: "ReadTransmissionData api mp = Inr (Some trans_data)"
      "GetAllExternalFileReferenceIds trans_data = Inr (pre @ r # post)"
      "list_all (ref_reads api trans_data x linktype) pre"
      and f: "GetLastSavedReferenceData trans_data r = Inl err"
    have "read_links api x linktype mp = Inl err"
      by (rule read_links_at[OF h]) (rule links_loop_data_fails[OF f])
    then show "get_links api host linktype d = Inl (links_error api mp err)"
      by (simp add: eq)
  qed
  have d2: "\<forall>trans_data pre r post.
            ReadTransmissionData api mp = Inr (Some trans_data) \<and>
            GetAllExternalFileReferenceIds trans_data = Inr (pre @ r # post) \<and>
            list_all (ref_reads api trans_data x linktype) pre \<and>
            GetLastSavedReferenceData trans_data r = Inr None \<and>
            filters_by_type api linktype \<longrightarrow>
            get_links api host linktype d
              = Inl (links_error api mp
                  (AttributeError ''NoneType object has no attribute ExternalFileReferenceType''))"
  proof (intro allI impI, elim conjE)
    fix trans_data pre r post
    assume h: "ReadTransmissionData api mp = Inr (Some trans_data)"
      "GetAllExternalFileReferenceIds trans_data = Inr (pre @ r # post)"
      "list_all (ref_reads api trans_data x linktype) pre"
      and f: "GetLastSavedReferenceData trans_data r = Inr None" "filters_by_type api linktype"
    have "read_links api x linktype mp
            = Inl (AttributeError ''NoneType object has no attribute ExternalFileReferenceType'')"
      by (rule read_links_at[OF h]) (rule links_loop_data_null[OF f])
    then show "get_links api host linktype d
              = Inl (links_error api mp
                  (AttributeError ''NoneType object has no attribute ExternalFileReferenceType''))"
      by (simp add: eq)
  qed
  have d3: "\<forall>trans_data pre r post ext_ref err.
            ReadTransmissionData api mp = Inr (Some trans_data) \<and>
            GetAllExternalFileReferenceIds trans_data = Inr (pre @ r # post) \<and>
            list_all (ref_reads api trans_data x linktype) pre \<and>
            GetLastSavedReferenceData trans_data r = Inr ext_ref \<and>
            is_wrapped api linktype ext_ref \<and>
            ExternalRef api (GetElement x r) ext_ref = Inl err \<longrightarrow>
            get_links api host linktype d = Inl (links_error api mp err)"
  proof (intro allI impI, elim conjE)
    fix trans_data pre r post ext_ref err
    assume h: "ReadTransmissionData api mp = Inr (Some trans_data)"
      "GetAllExternalFileReferenceIds trans_data = Inr (pre @ r # post)"
      "list_all (ref_reads api trans_data x linktype) pre"
      and f: "GetLastSavedReferenceData trans_data r = Inr ext_ref"
        "is_wrapped api linktype ext_ref"
        "ExternalRef api (GetElement x r) ext_ref = Inl err"
    have "read_links api x linktype mp = Inl err"
      by (rule read_links_at[OF h]) (rule links_loop_wrapper_fails[OF f])
    then show "get_links api host linktype d = Inl (links_error api mp err)"
      by (simp add: eq)
  qed
  have g: "\<forall>trans_data ids.
            ReadTransmissionData api mp = Inr (Some trans_data) \<and>
            GetAllExternalFileReferenceIds trans_data = Inr ids \<and>
            list_all (ref_reads api trans_data x linktype) ids \<longrightarrow>
            (\<exists>links. get_links api host linktype d = Inr links)"
  proof (intro allI impI, elim conjE)
    fix trans_data ids
    assume h: "ReadTransmissionData api mp = Inr (Some trans_data)"
      "GetAllExternalFileReferenceIds trans_data = Inr ids"
      and r: "list_all (ref_reads api trans_data x linktype) ids"
    obtain links' where "links_loop api trans_data x linktype (ids @ []) []
                           = links_loop api trans_data x linktype [] links'"
      using links_loop_prefix[OF r] by blast
    then have "read_links api x linktype mp = Inr links'"
      by (simp add: read_links_ids[OF h])
    then show "\<exists>links. get_links api host linktype d = Inr links"
      by (simp add: eq)
  qed
  have e: "\<forall>e. get_links api host linktype d = Inl e \<longrightarrow> is_py_exception e"
    by (cases "read_links api x linktype mp")
       (auto simp: eq links_error_def is_py_exception_def)
  from a b b' c d1 d2 d3 g e show ?thesis by blast
qed

theorem get_links_wraps_failures_witness:
  "doc_or_host (sample_host None) (Some sample_document) = Some sample_document \<and>
   PathName sample_document \<noteq> [] \<and>
   ConvertUserVisiblePathToModelPath reading_links_host (PathName sample_document)
     = Inr (Some ''C:/models/project.rvt'') \<and>
   ReadTransmissionData reading_links_host ''C:/models/project.rvt''
     = Inr (Some sample_transmission) \<and>
   GetAllExternalFileReferenceIds sample_transmission = Inr ([301] @ 302 # []) \<and>
   list_all (ref_reads reading_links_host sample_transmission sample_document None) [301] \<and>
   GetLastSavedReferenceData sample_transmission 302
     = Inl (HostException ''The reference data is damaged'') \<and>
   get_links reading_links_host (sample_host None) None (Some sample_document)
     = Inl (PyRevitException
         ''Error reading links from model path: C:/models/project.rvt | The reference data is damaged'') \<and>
   GetAllExternalFileReferenceIds sample_transmission = Inr ([] @ 301 # [302]) \<and>
   GetLastSavedReferenceData sample_transmission 301
     = Inr (Some \<lparr>ExternalFileReferenceType = 1\<rparr>) \<and>
   is_wrapped unwrapping_links_host None (Some \<lparr>ExternalFileReferenceType = 1\<rparr>) \<and>
   ExternalRef unwrapping_links_host (GetElement sample_document 301)
       (Some \<lparr>ExternalFileReferenceType = 1\<rparr>)
     = Inl (TypeError ''expected ExternalFileReference'') \<and>
   get_links unwrapping_links_host (sample_host None) None (Some sample_document)
     = Inl (PyRevitException
         ''Error reading links from model path: C:/models/project.rvt | expected ExternalFileReference'') \<and>
   ReadTransmissionData sample_links_host ''C:/models/project.rvt''
     = Inl (HostException ''The file is not a valid model'') \<and>
   get_links sample_links_host (sample_host None) None (Some sample_document)
     = Inl (PyRevitException
         ''Error reading links from model path: C:/models/project.rvt | The file is not a valid model'')"
proof -
  let ?mp = "''C:/models/project.rvt''"
  let ?ref = "Some \<lparr>ExternalFileReferenceType = 1\<rparr>"
  have h1: "doc_or_host (sample_host None) (Some sample_document) = Some sample_document"
    by (simp add: doc_or_host_def)
  have h2: "PathName sample_document \<noteq> []"
    by (simp add: sample_document_def)
  have h3: "ConvertUserVisiblePathToModelPath reading_links_host (PathName sample_document)
              = Inr (Some ?mp)"
    "ConvertUserVisiblePathToModelPath unwrapping_links_host (PathName sample_document)
              = Inr (Some ?mp)"
    "ConvertUserVisiblePathToModelPath sample_links_host (PathName sample_document)
              = Inr (Some ?mp)"
    by (simp_all add: unwrapping_links_host_def reading_links_host_def sample_links_host_def
          sample_document_def)
  have rd: "ReadTransmissionData reading_links_host ?mp = Inr (Some sample_transmission)"
    "ReadTransmissionData unwrapping_links_host ?mp = Inr (Some sample_transmission)"
    by (simp_all add: unwrapping_links_host_def reading_links_host_def)
  have rf: "ReadTransmissionData sample_links_host ?mp
              = Inl (HostException ''The file is not a valid model'')"
    by (simp add: sample_links_host_def)
  have ids: "GetAllExternalFileReferenceIds sample_transmission = Inr ([301] @ 302 # [])"
    "GetAllExternalFileReferenceIds sample_transmission = Inr ([] @ 301 # [302])"
    by (simp_all add: sample_transmission_def)
  have d1: "GetLastSavedReferenceData sample_transmission 301 = Inr ?ref"
    and d2: "GetLastSavedReferenceData sample_transmission 302
               = Inl (HostException ''The reference data is damaged'')"
    by (simp_all add: sample_transmission_def)
  have pre: "list_all (ref_reads reading_links_host sample_transmission sample_document None) [301]"
    by (simp add: ref_reads_def d1 filters_by_type_def is_wrapped_def reading_links_host_def
          sample_links_host_def)
  have pre0: "list_all (ref_reads unwrapping_links_host sample_transmission sample_document None) []"
    by simp
  have w: "is_wrapped unwrapping_links_host None ?ref"
    by (simp add: is_wrapped_def filters_by_type_def)
  have wf: "ExternalRef unwrapping_links_host (GetElement sample_document 301) ?ref
              = Inl (TypeError ''expected ExternalFileReference'')"
    by (simp add: unwrapping_links_host_def)
  note t1 = get_links_wraps_failures[OF h1 h2 h3(1), of None]
  note t2 = get_links_wraps_failures[OF h1 h2 h3(2), of None]
  note t3 = get_links_wraps_failures[OF h1 h2 h3(3), of None]
  have r1: "get_links reading_links_host (sample_host None) None (Some sample_document)
     = Inl (links_error reading_links_host ?mp (HostException ''The reference data is damaged''))"
    by (rule t1[THEN conjunct2, THEN conjunct2, THEN conjunct2, THEN conjunct2, THEN conjunct1,
                rule_format, of sample_transmission "[301]" 302 "[]"])
       (intro conjI rd(1) ids(1) pre d2)
  have r2: "get_links unwrapping_links_host (sample_host None) None (Some sample_document)
     = Inl (links_error unwrapping_links_host ?mp (TypeError ''expected ExternalFileReference''))"
    by (rule t2[THEN conjunct2, THEN conjunct2, THEN conjunct2, THEN conjunct2, THEN conjunct2,
                THEN conjunct2, THEN conjunct1,
                rule_format, of sample_transmission "[]" 301 "[302]" ?ref])
       (intro conjI rd(2) ids(2) pre0 d1 w wf)
  have r3: "get_links sample_links_host (sample_host None) None (Some sample_document)
     = Inl (links_error sample_links_host ?mp (HostException ''The file is not a valid model''))"
    by (rule t3[THEN conjunct2, THEN conjunct1, rule_format]) (rule rf)
  have e1: "links_error reading_links_host ?mp (HostException ''The reference data is damaged'')
     = PyRevitException
         ''Error reading links from model path: C:/models/project.rvt | The reference data is damaged''"
    and e2: "links_error unwrapping_links_host ?mp (TypeError ''expected ExternalFileReference'')
     = PyRevitException
         ''Error reading links from model path: C:/models/project.rvt | expected ExternalFileReference''"
    and e3: "links_error sample_links_host ?mp (HostException ''The file is not a valid model'')
     = PyRevitException
         ''Error reading links from model path: C:/models/project.rvt | The file is not a valid model''"
    by (simp_all add: links_error_def unwrapping_links_host_def reading_links_host_def
          sample_links_host_def)
  show ?thesis
    using h1 h2 h3(1) rd(1) ids pre d1 d2 w wf rf r1 r2 r3
    unfolding e1 e2 e3 by (intro conjI)
qed

section \<open>Precondition violations\<close>

text \<open>
  Claim C9. Each precondition violation raises the domain error \<^verbatim>\<open>PyRevitException\<close>:
  \<^verbatim>\<open>get_sharedparam_definition_file\<close> when no shared-parameter file is defined and
  when opening it yields nothing; \<^verbatim>\<open>get_links\<close> when the document has an empty path;
  \<^verbatim>\<open>get_family_type\<close> and \<^verbatim>\<open>get_family_parameter\<close> on a document that is not a family.
\<close>

theorem precondition_violations_raise:
  "(SharedParametersFilename host = None \<or> SharedParametersFilename host = Some [] \<longrightarrow>
      get_sharedparam_definition_file host
        = Inl (PyRevitException ''No Shared Parameters file defined.''))
   \<and> (SharedParametersFilename host = Some (c # cs) \<and> OpenSharedParameterFile host = None \<longrightarrow>
      get_sharedparam_definition_file host
        = Inl (PyRevitException ''Failed opening Shared Parameters file.''))
   \<and> (doc_or_host host d = Some x \<and> PathName x = [] \<longrightarrow>
      get_links api host linktype d
        = Inl (PyRevitException ''PathName is empty. Model is not saved.''))
   \<and> (\<not> IsFamilyDocument family_doc \<longrightarrow>
      get_family_type type_name family_doc = Inl (PyRevitException ''Document is not a family'')
      \<and> get_family_parameter param_name family_doc
          = Inl (PyRevitException ''Document is not a family''))"
  by (auto simp: get_sharedparam_definition_file_def get_links_def get_family_type_def
        get_family_parameter_def)

theorem precondition_violations_raise_witness:
  "SharedParametersFilename (sample_host None) = None \<and>
   get_sharedparam_definition_file (sample_host None)
     = Inl (PyRevitException ''No Shared Parameters file defined.'') \<and>
   SharedParametersFilename ((sample_host None)\<lparr>SharedParametersFilename := Some ''shared.txt''\<rparr>)
     = Some ''shared.txt'' \<and>
   OpenSharedParameterFile ((sample_host None)\<lparr>SharedParametersFilename := Some ''shared.txt''\<rparr>)
     = None \<and>
   get_sharedparam_definition_file
     ((sample_host None)\<lparr>SharedParametersFilename := Some ''shared.txt''\<rparr>)
     = Inl (PyRevitException ''Failed opening Shared Parameters file.'') \<and>
   doc_or_host (sample_host (Some unsaved_document)) None = Some unsaved_document \<and>
   PathName unsaved_document = [] \<and>
   get_links sample_links_host (sample_host (Some unsaved_document)) None None
     = Inl (PyRevitException ''PathName is empty. Model is not saved.'') \<and>
   \<not> IsFamilyDocument sample_document \<and>
   get_family_type ''Type 1'' sample_document
     = Inl (PyRevitException ''Document is not a family'') \<and>
   get_family_parameter ''Width'' sample_document
     = Inl (PyRevitException ''Document is not a family'')"
proof -
  let ?h2 = "(sample_host None)\<lparr>SharedParametersFilename := Some ''shared.txt''\<rparr>"
  have a: "SharedParametersFilename (sample_host None) = None"
    by (simp add: sample_host_def)
  have b: "SharedParametersFilename ?h2 = Some ''shared.txt''"
    and c: "OpenSharedParameterFile ?h2 = None"
    by (simp_all add: sample_host_def)
  have d: "doc_or_host (sample_host (Some unsaved_document)) None = Some unsaved_document"
    by (simp add: doc_or_host_def sample_host_def)
  have e: "PathName unsaved_document = []"
    by (simp add: unsaved_document_def)
  have f: "\<not> IsFamilyDocument sample_document"
    by (simp add: sample_document_def)
  have r1: "get_sharedparam_definition_file (sample_host None)
     = Inl (PyRevitException ''No Shared Parameters file defined.'')"
    using precondition_violations_raise[where host = "sample_host None", THEN conjunct1] a
    by blast
  have r2: "get_sharedparam_definition_file ?h2
     = Inl (PyRevitException ''Failed opening Shared Parameters file.'')"
    using precondition_violations_raise
      [where host = ?h2 and c = "CHR ''s''" and cs = "''hared.txt''",
        THEN conjunct2, THEN conjunct1] b c
    by blast
  have r3: "get_links sample_links_host (sample_host (Some unsaved_document)) None None
     = Inl (PyRevitException ''PathName is empty. Model is not saved.'')"
    using precondition_violations_raise
      [where host = "sample_host (Some unsaved_document)" and d = None
         and x = unsaved_document and api = sample_links_host and linktype = None,
        THEN conjunct2, THEN conjunct2, THEN conjunct1] d e
    by blast
  have r45: "get_family_type ''Type 1'' sample_document
               = Inl (PyRevitException ''Document is not a family'')
             \<and> get_family_parameter ''Width'' sample_document
               = Inl (PyRevitException ''Document is not a family'')"
    using precondition_violations_raise
      [where family_doc = sample_document and type_name = "''Type 1''"
         and param_name = "''Width''",
        THEN conjunct2, THEN conjunct2, THEN conjunct2] f
    by blast
  from a b c d e f r1 r2 r3 r45 show ?thesis by simp
qed

section \<open>Looking a parameter up, with a default\<close>

text \<open>
  Claim C10. For an input that is not a host element \<^verbatim>\<open>get_param\<close> returns \<^verbatim>\<open>None\<close>
  whatever the default is. For an element the result is what the lookup returns, the
  parameter or \<^verbatim>\<open>None\<close>, again whatever the default is, unless the lookup raises: only
  then is the default returned.
\<close>

theorem get_param_default:
  "(\<not> is_element element \<longrightarrow> get_param element param_name default_value = PyNone)
   \<and> (LookupParameter e param_name = Inr r \<longrightarrow>
        get_param (PyObj e) param_name default_value = of_opt r)
   \<and> (LookupParameter e param_name = Inl err \<longrightarrow>
        get_param (PyObj e) param_name default_value = default_value)"
  by (cases element; cases r)
     (simp_all add: get_param_def is_element_def of_opt_def)

theorem get_param_default_witness:
  "\<not> is_element (PyStr ''wall'') \<and>
   get_param (PyStr ''wall'') (PyStr ''Mark'' :: unit pyval) (PyInt 7) = PyNone \<and>
   LookupParameter (marked_elements ! 1) (PyStr ''Mark'' :: unit pyval)
     = Inr (Some (sample_param ST_String ''101'' 0)) \<and>
   get_param (PyObj (marked_elements ! 1)) (PyStr ''Mark'' :: unit pyval) (PyInt 7)
     = PyObj (sample_param ST_String ''101'' 0) \<and>
   LookupParameter (marked_elements ! 1) (PyNone :: unit pyval)
     = Inl (HostException ''ArgumentNullException: parameterName'') \<and>
   get_param (PyObj (marked_elements ! 1)) (PyNone :: unit pyval) (PyInt 7) = PyInt 7"
proof -
  have a: "\<not> is_element (PyStr ''wall'')"
    by (simp add: is_element_def)
  have b: "LookupParameter (marked_elements ! 1) (PyStr ''Mark'' :: unit pyval)
     = Inr (Some (sample_param ST_String ''101'' 0))"
    by (simp add: LookupParameter_def marked_elements_def sample_element_def)
  have c: "LookupParameter (marked_elements ! 1) (PyNone :: unit pyval)
     = Inl (HostException ''ArgumentNullException: parameterName'')"
    by (simp add: LookupParameter_def)
  have r1: "get_param (PyStr ''wall'') (PyStr ''Mark'' :: unit pyval) (PyInt 7) = PyNone"
    using get_param_default
      [where element = "PyStr ''wall''" and param_name = "PyStr ''Mark'' :: unit pyval"
         and default_value = "PyInt 7", THEN conjunct1] a
    by blast
  have "get_param (PyObj (marked_elements ! 1)) (PyStr ''Mark'' :: unit pyval) (PyInt 7)
     = of_opt (Some (sample_param ST_String ''101'' 0))"
    using get_param_default
      [where e = "marked_elements ! 1" and param_name = "PyStr ''Mark'' :: unit pyval"
         and r = "Some (sample_param ST_String ''101'' 0)" and default_value = "PyInt 7",
        THEN conjunct2, THEN conjunct1] b
    by blast
  then have r2: "get_param (PyObj (marked_elements ! 1)) (PyStr ''Mark'' :: unit pyval) (PyInt 7)
     = PyObj (sample_param ST_String ''101'' 0)"
    by (simp add: of_opt_def)
  have r3: "get_param (PyObj (marked_elements ! 1)) (PyNone :: unit pyval) (PyInt 7) = PyInt 7"
    using get_param_default
      [where e = "marked_elements ! 1" and param_name = "PyNone :: unit pyval"
         and err = "HostException ''ArgumentNullException: parameterName''"
         and default_value = "PyInt 7",
        THEN conjunct2, THEN conjunct2] c
    by blast
  from a b c r1 r2 r3 show ?thesis by simp
qed

section \<open>Filtering elements by category\<close>

lemma find_eq: "find (\<lambda>b. b = i) vs = (if i \<in> set vs then Some i else None)"
  by (induction vs) auto

lemma get_builtincategory_resolved:
  assumes "names_resolve host [x]" and "Category x = Some c"
  shows "get_builtincategory host (QStr (cat_Name c)) None
           = Inr (if cat_Id c \<noteq> 0 \<and> cat_Id c \<in> set (BuiltInCategory_values host)
                  then Some (cat_Id c) else None)"
  using assms
  by (auto simp: names_resolve_def get_builtincategory_def get_category_def
        get_doc_categories_def doc_or_host_def find_eq split: option.splits)

lemma elements_of_bicats_filter:
  assumes "names_resolve host els" and "builtin_categories host element_bicats"
  shows "elements_of_bicats host element_bicats els
           = Inr (filter (category_listed element_bicats) els)"
  using assms(1)
proof (induction els)
  case Nil
  then show ?case by simp
next
  case (Cons x els)
  from Cons.prems have here: "names_resolve host [x]" and rest: "names_resolve host els"
    by (simp_all add: names_resolve_def)
  from here obtain c where c: "Category x = Some c"
    by (auto simp: names_resolve_def split: option.splits)
  note b = get_builtincategory_resolved[OF here c]
  have listed: "cat_Id c \<in> set element_bicats \<Longrightarrow>
                  cat_Id c \<noteq> 0 \<and> cat_Id c \<in> set (BuiltInCategory_values host)"
    using assms(2) by (auto simp: builtin_categories_def list_all_iff)
  have keep: "category_listed element_bicats x \<longleftrightarrow> cat_Id c \<in> set element_bicats"
    by (simp add: category_listed_def c)
  show ?case
    using listed by (auto simp: c b Cons.IH[OF rest] keep)
qed

text \<open>
  Claim C4, as amended. For a list of elements that is not empty, and a list of
  built-in categories, \<^verbatim>\<open>get_elements_by_category\<close> returns exactly the elements of the
  list whose category is one of the built-in categories, in the order of the list. This
  is shown where the name of the category of each element, looked up among the
  categories of the active document, leads back to a category of the same id: the
  function finds the built-in category of an element by that lookup, whatever document
  it is given, and what it returns where the lookup leads elsewhere is left open here.
  An empty list counts as no list: the function then returns what the host collects from
  the document, given or active.
\<close>

theorem get_elements_by_category_sublist:
  "(elements \<noteq> [] \<and> names_resolve host elements \<and> builtin_categories host element_bicats \<longrightarrow>
      get_elements_by_category host element_bicats (Some elements) d
        = Inr (filter (category_listed element_bicats) elements))
   \<and> (doc_or_host host d = Some x \<longrightarrow>
      get_elements_by_category host element_bicats (Some []) d
        = Inr (collected_of_bicats x element_bicats)
      \<and> get_elements_by_category host element_bicats None d
        = Inr (collected_of_bicats x element_bicats))"
proof -
  have "get_elements_by_category host element_bicats (Some elements) d
        = Inr (filter (category_listed element_bicats) elements)"
    if ne: "elements \<noteq> []" and res: "names_resolve host elements"
      and bic: "builtin_categories host element_bicats"
  proof -
    from ne obtain e es where es: "elements = e # es" by (cases elements) auto
    have "get_elements_by_category host element_bicats (Some elements) d
            = elements_of_bicats host element_bicats elements"
      by (simp add: get_elements_by_category_def es)
    then show ?thesis by (simp add: elements_of_bicats_filter[OF res bic])
  qed
  moreover have "get_elements_by_category host element_bicats (Some []) d
        = Inr (collected_of_bicats x element_bicats)
      \<and> get_elements_by_category host element_bicats None d
        = Inr (collected_of_bicats x element_bicats)"
    if "doc_or_host host d = Some x"
    using that by (simp add: get_elements_by_category_def collector_def collected_of_bicats_def)
  ultimately show ?thesis by blast
qed

theorem get_elements_by_category_sublist_witness:
  "Elements walls_document \<noteq> [] \<and>
   names_resolve (sample_host (Some walls_document)) (Elements walls_document) \<and>
   builtin_categories (sample_host (Some walls_document)) [- 2000011] \<and>
   filter (category_listed [- 2000011]) (Elements walls_document)
     = [sample_element 1 (Some (Cat ''Walls'' (- 2000011) [])) []] \<and>
   get_elements_by_category (sample_host (Some walls_document)) [- 2000011]
     (Some (Elements walls_document)) None
     = Inr [sample_element 1 (Some (Cat ''Walls'' (- 2000011) [])) []] \<and>
   doc_or_host (sample_host (Some walls_document)) None = Some walls_document \<and>
   get_elements_by_category (sample_host (Some walls_document)) [- 2000011] (Some []) None
     = Inr [sample_element 1 (Some (Cat ''Walls'' (- 2000011) [])) []]"
proof -
  let ?h = "sample_host (Some walls_document)"
  have a: "Elements walls_document \<noteq> []"
    and b: "names_resolve ?h (Elements walls_document)"
    and c: "builtin_categories ?h [- 2000011]"
    and d: "doc_or_host ?h None = Some walls_document"
    by (simp_all add: walls_document_def sample_host_def sample_element_def doc_or_host_def
          names_resolve_def builtin_categories_def sample_document_def)
  have f: "filter (category_listed [- 2000011]) (Elements walls_document)
             = [sample_element 1 (Some (Cat ''Walls'' (- 2000011) [])) []]"
    by (simp add: category_listed_def walls_document_def sample_element_def)
  have g: "collected_of_bicats walls_document [- 2000011]
             = [sample_element 1 (Some (Cat ''Walls'' (- 2000011) [])) []]"
    by (simp add: collected_of_bicats_def walls_document_def sample_element_def)
  have r1: "get_elements_by_category ?h [- 2000011] (Some (Elements walls_document)) None
        = Inr (filter (category_listed [- 2000011]) (Elements walls_document))"
    using get_elements_by_category_sublist
      [where elements = "Elements walls_document" and host = ?h, THEN conjunct1] a b c
    by blast
  have r2: "get_elements_by_category ?h [- 2000011] (Some []) None
        = Inr (collected_of_bicats walls_document [- 2000011])"
    using get_elements_by_category_sublist
      [where host = ?h and d = None and x = walls_document, THEN conjunct2] d
    by blast
  from a b c d r1 r2 f g show ?thesis by simp
qed

text \<open>
  The claim as stated fails for the empty list: the sublist of an empty list is empty,
  but the function returns the wall the host collects from the active document.
\<close>

theorem get_elements_by_category_empty_list_counterexample:
  "get_elements_by_category (sample_host (Some walls_document)) [- 2000011] (Some []) None
     = Inr [sample_element 1 (Some (Cat ''Walls'' (- 2000011) [])) []]
   \<and> get_elements_by_category (sample_host (Some walls_document)) [- 2000011] (Some []) None
     \<noteq> Inr (filter (category_listed [- 2000011]) [])"
  by (simp add: get_elements_by_category_def collector_def doc_or_host_def sample_host_def
        walls_document_def sample_element_def)

text \<open>
  Where the lookup does not lead back: the door of \<open>plain_document\<close> is in the category
  asked for, but with that document active, which lists no category, its name is not
  found and the door is left out, also when the document is handed to the function.
\<close>

lemma get_elements_by_category_lookup_sample:
  "filter (category_listed [- 2000023]) (Elements plain_document) = Elements plain_document"
  "get_elements_by_category (sample_host (Some plain_document)) [- 2000023]
     (Some (Elements plain_document)) (Some walls_document) = Inr []"
  by (simp_all add: category_listed_def get_elements_by_category_def get_builtincategory_def
        get_category_def get_doc_categories_def doc_or_host_def sample_host_def
        plain_document_def sample_document_def sample_element_def)

section \<open>What the derived checks return\<close>


















section \<open>Grid points of a triangle\<close>

text \<open>
  Claim C5. Let three grids be given whose curves cross pairwise, in three different
  points, a curve compared with itself not being reported as an overlap. Then
  \<^verbatim>\<open>get_gridpoints\<close> returns three records, with three different points, and the record
  of each point holds the two grids whose curves cross there.
\<close>

theorem get_gridpoints_triangle:
  assumes s1: "fst (Intersect (Curve g1) (Curve g1)) \<noteq> Overlap"
      and s2: "fst (Intersect (Curve g2) (Curve g2)) \<noteq> Overlap"
      and s3: "fst (Intersect (Curve g3) (Curve g3)) \<noteq> Overlap"
      and i12: "Intersect (Curve g1) (Curve g2) = (Overlap, p12 # r12)"
      and i21: "Intersect (Curve g2) (Curve g1) = (Overlap, p12 # r21)"
      and i13: "Intersect (Curve g1) (Curve g3) = (Overlap, p13 # r13)"
      and i31: "Intersect (Curve g3) (Curve g1) = (Overlap, p13 # r31)"
      and i23: "Intersect (Curve g2) (Curve g3) = (Overlap, p23 # r23)"
      and i32: "Intersect (Curve g3) (Curve g2) = (Overlap, p23 # r32)"
      and d: "p12 \<noteq> p13" "p12 \<noteq> p23" "p13 \<noteq> p23"
  shows "\<exists>r. get_gridpoints Intersect host (Some [g1, g2, g3]) include_linked_models dc = Inr r
           \<and> length r = 3
           \<and> distinct (map point r)
           \<and> set r = {\<lparr>point = p12, grids = [g2, g1]\<rparr>,
                      \<lparr>point = p13, grids = [g3, g1]\<rparr>,
                      \<lparr>point = p23, grids = [g3, g2]\<rparr>}"
proof -
  obtain a1 b1 where e1: "Intersect (Curve g1) (Curve g1) = (a1, b1)" and n1: "a1 \<noteq> Overlap"
    using s1 by (cases "Intersect (Curve g1) (Curve g1)") auto
  obtain a2 b2 where e2: "Intersect (Curve g2) (Curve g2) = (a2, b2)" and n2: "a2 \<noteq> Overlap"
    using s2 by (cases "Intersect (Curve g2) (Curve g2)") auto
  obtain a3 b3 where e3: "Intersect (Curve g3) (Curve g3) = (a3, b3)" and n3: "a3 \<noteq> Overlap"
    using s3 by (cases "Intersect (Curve g3) (Curve g3)") auto
  note d' = d d[symmetric]
  have row1: "grid2_loop Intersect g1 [g1, g2, g3] []
                = Inr [(p12, [g1, g2]), (p13, [g1, g3])]"
    by (simp add: e1 n1 i12 i13 d' XYZPoint_def)
  have row2: "grid2_loop Intersect g2 [g1, g2, g3] [(p12, [g1, g2]), (p13, [g1, g3])]
                = Inr [(p12, [g2, g1]), (p13, [g1, g3]), (p23, [g2, g3])]"
    by (simp add: e2 n2 i21 i23 d' XYZPoint_def)
  have row3: "grid2_loop Intersect g3 [g1, g2, g3]
                  [(p12, [g2, g1]), (p13, [g1, g3]), (p23, [g2, g3])]
                = Inr [(p12, [g2, g1]), (p13, [g3, g1]), (p23, [g3, g2])]"
    by (simp add: e3 n3 i31 i32 d' XYZPoint_def)
  have "grid1_loop Intersect [g1, g2, g3] [g1, g2, g3] []
          = Inr [(p12, [g2, g1]), (p13, [g3, g1]), (p23, [g3, g2])]"
    by (simp only: grid1_loop.simps row1 row2 row3 sum.case)
  then have "get_gridpoints Intersect host (Some [g1, g2, g3]) include_linked_models dc
          = Inr [\<lparr>point = p12, grids = [g2, g1]\<rparr>,
                 \<lparr>point = p13, grids = [g3, g1]\<rparr>,
                 \<lparr>point = p23, grids = [g3, g2]\<rparr>]"
    by (simp add: get_gridpoints_def)
  then show ?thesis using d by auto
qed

theorem get_gridpoints_triangle_witness:
  "fst (sample_Intersect (Curve (sample_grid 1)) (Curve (sample_grid 1))) \<noteq> Overlap \<and>
   sample_Intersect (Curve (sample_grid 1)) (Curve (sample_grid 2)) = (Overlap, [(1, 2)]) \<and>
   sample_Intersect (Curve (sample_grid 2)) (Curve (sample_grid 1)) = (Overlap, [(1, 2)]) \<and>
   (\<exists>r. get_gridpoints sample_Intersect (sample_host None)
           (Some [sample_grid 1, sample_grid 2, sample_grid 3]) False None = Inr r
      \<and> length r = 3
      \<and> distinct (map point r)
      \<and> set r = {\<lparr>point = (1, 2), grids = [sample_grid 2, sample_grid 1]\<rparr>,
                 \<lparr>point = (1, 3), grids = [sample_grid 3, sample_grid 1]\<rparr>,
                 \<lparr>point = (2, 3), grids = [sample_grid 3, sample_grid 2]\<rparr>})"
proof -
  have s: "fst (sample_Intersect (Curve (sample_grid 1)) (Curve (sample_grid 1))) \<noteq> Overlap"
    "fst (sample_Intersect (Curve (sample_grid 2)) (Curve (sample_grid 2))) \<noteq> Overlap"
    "fst (sample_Intersect (Curve (sample_grid 3)) (Curve (sample_grid 3))) \<noteq> Overlap"
    by (simp_all add: sample_Intersect_def sample_grid_def)
  have i: "sample_Intersect (Curve (sample_grid 1)) (Curve (sample_grid 2)) = (Overlap, [(1, 2)])"
    "sample_Intersect (Curve (sample_grid 2)) (Curve (sample_grid 1)) = (Overlap, [(1, 2)])"
    "sample_Intersect (Curve (sample_grid 1)) (Curve (sample_grid 3)) = (Overlap, [(1, 3)])"
    "sample_Intersect (Curve (sample_grid 3)) (Curve (sample_grid 1)) = (Overlap, [(1, 3)])"
    "sample_Intersect (Curve (sample_grid 2)) (Curve (sample_grid 3)) = (Overlap, [(2, 3)])"
    "sample_Intersect (Curve (sample_grid 3)) (Curve (sample_grid 2)) = (Overlap, [(2, 3)])"
    by (simp_all add: sample_Intersect_def sample_grid_def)
  have d: "((1, 2) :: nat \<times> nat) \<noteq> (1, 3)" "((1, 2) :: nat \<times> nat) \<noteq> (2, 3)"
    "((1, 3) :: nat \<times> nat) \<noteq> (2, 3)"
    by simp_all
  from get_gridpoints_triangle[OF s i d, of "sample_host None" False None] s(1) i(1) i(2)
  show ?thesis by simp
qed

end
